theory Spec2Isabelle
  imports Main "HOL-Library.Sublist" "HOL-Library.Multiset" "HOL-Library.Char_ord"
    "HOL-Library.List_Lexorder"
begin

section \<open>The Rust language profile (RustProfile.ts)\<close>

text \<open>
  JavaScript's \<^verbatim>\<open>String.prototype.endsWith(searchString)\<close> with no end position:
  the start index is the length of the receiver minus the length of the search string;
  a negative start answers false, otherwise the code units from the start to the end are
  compared with the search string. Strings are lists of code units; the only search
  string the profile uses is ASCII.
\<close>

definition endsWith :: "string \<Rightarrow> string \<Rightarrow> bool" where
  "endsWith s searchString =
     (let len = int (length s);
          searchLength = int (length searchString);
          start = len - searchLength
      in if start < 0 then False else drop (nat start) s = searchString)"

text \<open>\<^verbatim>\<open>isTestFile = (filePath: string) => filePath.endsWith('test.rs')\<close>\<close>

definition isTestFile :: "string \<Rightarrow> bool" where
  "isTestFile filePath = endsWith filePath ''test.rs''"

text \<open>The declarative fields of the profile that are plain data.\<close>

record LanguageProfile =
  languageIds :: "string list"
  fileExtensions :: "string list"
  namespaces :: "string list list"
  autoSelectInsideParent :: "string list"
  builtInTypes :: "string list"

definition RustProfile :: LanguageProfile where
  "RustProfile =
     \<lparr> languageIds = [''rust''],
       fileExtensions = [''rs''],
       namespaces = [[
         ''const'', ''function'', ''variable'',
         ''struct'', ''enum'', ''union'', ''typedef'', ''interface'',
         ''field'', ''enumerator'',
         ''module'',
         ''label'', ''lifetime'']],
       autoSelectInsideParent = [],
       builtInTypes = [
         ''bool'', ''i8'', ''char'', ''i16'', ''i32'', ''i64'', ''f32'', ''f64'', ''()'',
         ''bool'', ''i8'', ''char'', ''i16'', ''i32'', ''i64'', ''f32'', ''f64'', ''String'',
         ''&[T]'', ''Vec<T>'', ''HashMap<K, V>'', ''HashSet<T>'', ''Vec<T>'',
         ''impl Iterator'', ''impl Iterator'', ''Option<T>''] \<rparr>"

section \<open>The MCP server wrapper (server.ts)\<close>

text \<open>
  \<open>MCPServerImpl\<close> owns an SDK server instance, an optional stdio transport, an optional
  table of HTTP transport sessions, an optional managed HTTP server, an optional Express
  application and the flag \<open>isDestroyed\<close>. The SDK, Express and the HTTP server are
  external objects: what the class does to them is recorded in \<open>effects\<close>, in order.
  A method that throws keeps the mutations it made before the throw, so every method
  returns the thrown error (if any) together with the state.
\<close>

datatype mcp_error =
    StillRunning            \<comment> \<open>\<^verbatim>\<open>MCPServer is still running\<close>\<close>
  | FailedExpressApp        \<comment> \<open>\<^verbatim>\<open>Failed to create Express app\<close>\<close>
  | FailedTransportSessions \<comment> \<open>\<^verbatim>\<open>Failed to create MCP HTTP transport sessions\<close>\<close>
  | FailedStdioTransport    \<comment> \<open>\<^verbatim>\<open>Failed to create MCP STDIO transport\<close>\<close>
  | TypeError               \<comment> \<open>an index into \<^verbatim>\<open>undefined\<close>, or a call of what is no function\<close>
  | ConnectRejected         \<comment> \<open>the SDK server's \<^verbatim>\<open>connect\<close> rejected\<close>

datatype http_method = POST | GET | DELETE

datatype http_server = Listening nat "string option"

datatype effect =
    McpResource string
  | McpTool string
  | McpPrompt string
  | McpConnectStdio
  | McpConnectHttp nat
  | McpClose
  | HttpListen http_server
  | HttpClose http_server
  | StdioClose
  | TransportHandleRequest nat
  | Respond400

record HttpServeOptions =
  port :: nat
  hostname :: "string option"

record Application =
  jsonMiddleware :: bool
  routes :: "(http_method \<times> string) list"

record MCPServerImpl =
  impl_name :: string
  impl_version :: string
  mcpStdioTransport :: "unit option"
  mcpHttpTransportSessions :: "(string \<times> nat) list option"
  managedHttpServer :: "http_server option"
  expressApp :: "Application option"
  isDestroyed :: bool
  nextTransport :: nat
  effects :: "effect list"

text \<open>A string or \<^verbatim>\<open>undefined\<close> in a condition: \<^verbatim>\<open>undefined\<close> and the empty string are falsy.\<close>

fun truthy_string :: "string option \<Rightarrow> bool" where
  "truthy_string None = False"
| "truthy_string (Some s) = (s \<noteq> [])"

definition installHooks :: "MCPServerImpl \<Rightarrow> MCPServerImpl" where
  "installHooks s =
     s\<lparr>effects := effects s @ [McpResource ''mcp'', McpTool ''add'', McpPrompt ''review-code'']\<rparr>"

text \<open>
  The field initialiser \<^verbatim>\<open>private isDestroyed = true\<close> runs before the constructor body,
  which stores \<open>impl\<close>, creates the SDK server and installs the hooks.
\<close>

definition new_MCPServerImpl :: "string \<Rightarrow> string \<Rightarrow> MCPServerImpl" where
  "new_MCPServerImpl name version =
     installHooks
       \<lparr> impl_name = name, impl_version = version,
         mcpStdioTransport = None,
         mcpHttpTransportSessions = None,
         managedHttpServer = None,
         expressApp = None,
         isDestroyed = True,
         nextTransport = 0,
         effects = [] \<rparr>"

definition ensureExpressApp :: "MCPServerImpl \<Rightarrow> MCPServerImpl" where
  "ensureExpressApp s =
     (if expressApp s = None
      then s\<lparr>expressApp := Some \<lparr>jsonMiddleware = True, routes = []\<rparr>\<rparr>
      else s)"

definition ensureMcpHttpTransportSessions :: "MCPServerImpl \<Rightarrow> MCPServerImpl" where
  "ensureMcpHttpTransportSessions s =
     (if mcpHttpTransportSessions s = None
      then s\<lparr>mcpHttpTransportSessions := Some []\<rparr>
      else s)"

definition ensureMcpStdioTransport :: "MCPServerImpl \<Rightarrow> MCPServerImpl" where
  "ensureMcpStdioTransport s =
     (if mcpStdioTransport s = None
      then s\<lparr>mcpStdioTransport := Some ()\<rparr>
      else s)"

definition ensureDestroyed :: "MCPServerImpl \<Rightarrow> mcp_error option \<times> MCPServerImpl" where
  "ensureDestroyed s =
     (if \<not> isDestroyed s then (Some StillRunning, s) else (None, s))"

definition serveHttp :: "HttpServeOptions \<Rightarrow> MCPServerImpl \<Rightarrow> mcp_error option \<times> MCPServerImpl" where
  "serveHttp options s =
     (case ensureDestroyed s of
        (Some e, s0) \<Rightarrow> (Some e, s0)
      | (None, s0) \<Rightarrow>
          let s1 = ensureExpressApp s0;
              s2 = ensureMcpHttpTransportSessions s1
          in (case expressApp s2 of
                None \<Rightarrow> (Some FailedExpressApp, s2)
              | Some app \<Rightarrow>
                  (case mcpHttpTransportSessions s2 of
                     None \<Rightarrow> (Some FailedTransportSessions, s2)
                   | Some _ \<Rightarrow>
                       let app' = app\<lparr>routes := routes app @
                                    [(POST, ''/mcp''), (GET, ''/mcp''), (DELETE, ''/mcp'')]\<rparr>;
                           s3 = s2\<lparr>expressApp := Some app'\<rparr>;
                           s4 = (case managedHttpServer s3 of
                                   Some old \<Rightarrow>
                                     s3\<lparr>effects := effects s3 @ [HttpClose old],
                                        managedHttpServer := None\<rparr>
                                 | None \<Rightarrow> s3);
                           srv = (if truthy_string (hostname options)
                                  then Listening (port options) (hostname options)
                                  else Listening (port options) None)
                       in (None, s4\<lparr>managedHttpServer := Some srv,
                                     effects := effects s4 @ [HttpListen srv]\<rparr>))))"

definition serveStdio :: "MCPServerImpl \<Rightarrow> mcp_error option \<times> MCPServerImpl" where
  "serveStdio s =
     (case ensureDestroyed s of
        (Some e, s0) \<Rightarrow> (Some e, s0)
      | (None, s0) \<Rightarrow>
          let s1 = ensureMcpStdioTransport s0
          in (case mcpStdioTransport s1 of
                None \<Rightarrow> (Some FailedStdioTransport, s1)
              | Some _ \<Rightarrow> (None, s1\<lparr>effects := effects s1 @ [McpConnectStdio]\<rparr>)))"

text \<open>
  \<open>destroy\<close>: the promise around the HTTP server's \<^verbatim>\<open>close\<close> is resolved right after the
  call, so the \<^verbatim>\<open>await\<close> returns; \<open>managedHttpServer\<close> itself is not cleared.
\<close>

definition destroy :: "MCPServerImpl \<Rightarrow> mcp_error option \<times> MCPServerImpl" where
  "destroy s =
     (if isDestroyed s then (None, s)
      else
        let s1 = s\<lparr>isDestroyed := True\<rparr>;
            s2 = s1\<lparr>effects := effects s1 @ [McpClose]\<rparr>;
            s3 = (case managedHttpServer s2 of
                    Some srv \<Rightarrow> s2\<lparr>effects := effects s2 @ [HttpClose srv]\<rparr>
                  | None \<Rightarrow> s2);
            s4 = s3\<lparr>expressApp := None, mcpHttpTransportSessions := None\<rparr>;
            s5 = (case mcpStdioTransport s4 of
                    Some _ \<Rightarrow> s4\<lparr>effects := effects s4 @ [StdioClose]\<rparr>
                  | None \<Rightarrow> s4)
        in (None, s5\<lparr>mcpStdioTransport := None\<rparr>))"

text \<open>A header value that counts in a condition: present and not empty.\<close>

fun present :: "string option \<Rightarrow> string option" where
  "present None = None"
| "present (Some s) = (if s = [] then None else Some s)"

text \<open>
  The session table is a plain object, so an index that is no session id of its own
  still finds what every object inherits under these names: a value that is truthy and
  is not a transport.
\<close>

definition inheritedKeys :: "string list" where
  "inheritedKeys =
     [''constructor'', ''hasOwnProperty'', ''isPrototypeOf'', ''propertyIsEnumerable'',
      ''toLocaleString'', ''toString'', ''valueOf'', ''__proto__'',
      ''__defineGetter__'', ''__defineSetter__'', ''__lookupGetter__'', ''__lookupSetter__'']"

datatype indexed = Transport nat | Inherited | Undefined

definition sessionAt :: "(string \<times> nat) list \<Rightarrow> string \<Rightarrow> indexed" where
  "sessionAt sessions key =
     (case map_of sessions key of
        Some t \<Rightarrow> Transport t
      | None \<Rightarrow> if List.member inheritedKeys key then Inherited else Undefined)"

text \<open>
  The request handlers that \<open>serveHttp\<close> registers. \<open>handlePost sessionId isInit connected
  newSid\<close> is the POST handler for a request with header \<open>mcp-session-id = sessionId\<close>
  whose body is an initialise request iff \<open>isInit\<close>; \<open>connected\<close> says whether the SDK
  server's \<^verbatim>\<open>connect\<close> resolves for the new transport; \<open>newSid\<close> is the session id (made by
  \<^verbatim>\<open>randomUUID\<close>, so never an inherited name) that the new transport reports through
  \<^verbatim>\<open>onsessioninitialized\<close> while it handles the request, if it does. An inherited value
  found in the table has no \<^verbatim>\<open>handleRequest\<close>, and calling it is a TypeError.
\<close>

definition handlePost ::
  "string option \<Rightarrow> bool \<Rightarrow> bool \<Rightarrow> string option \<Rightarrow> MCPServerImpl
     \<Rightarrow> mcp_error option \<times> MCPServerImpl" where
  "handlePost sessionId isInit connected newSid s =
     (case present sessionId of
        Some key \<Rightarrow>
          (case mcpHttpTransportSessions s of
             None \<Rightarrow> (Some TypeError, s)
           | Some sessions \<Rightarrow>
               (case sessionAt sessions key of
                  Transport t \<Rightarrow> (None, s\<lparr>effects := effects s @ [TransportHandleRequest t]\<rparr>)
                | Inherited \<Rightarrow> (Some TypeError, s)
                | Undefined \<Rightarrow> (None, s\<lparr>effects := effects s @ [Respond400]\<rparr>)))
      | None \<Rightarrow>
          if isInit then
            let t = nextTransport s;
                s1 = s\<lparr>nextTransport := Suc t, effects := effects s @ [McpConnectHttp t]\<rparr>
            in if \<not> connected then (Some ConnectRejected, s1)
               else
                 let s2 = s1\<lparr>effects := effects s1 @ [TransportHandleRequest t]\<rparr>
                 in (case newSid of
                       None \<Rightarrow> (None, s2)
                     | Some sid \<Rightarrow>
                         (case mcpHttpTransportSessions s2 of
                            None \<Rightarrow> (Some TypeError, s2)
                          | Some sessions \<Rightarrow>
                              (None, s2\<lparr>mcpHttpTransportSessions :=
                                           Some ((sid, t) # filter (\<lambda>kv. fst kv \<noteq> sid) sessions)\<rparr>)))
          else (None, s\<lparr>effects := effects s @ [Respond400]\<rparr>))"

definition handleSessionRequest ::
  "string option \<Rightarrow> MCPServerImpl \<Rightarrow> mcp_error option \<times> MCPServerImpl" where
  "handleSessionRequest sessionId s =
     (case present sessionId of
        None \<Rightarrow> (None, s\<lparr>effects := effects s @ [Respond400]\<rparr>)
      | Some key \<Rightarrow>
          (case mcpHttpTransportSessions s of
             None \<Rightarrow> (Some TypeError, s)
           | Some sessions \<Rightarrow>
               (case sessionAt sessions key of
                  Undefined \<Rightarrow> (None, s\<lparr>effects := effects s @ [Respond400]\<rparr>)
                | Inherited \<Rightarrow> (Some TypeError, s)
                | Transport t \<Rightarrow> (None, s\<lparr>effects := effects s @ [TransportHandleRequest t]\<rparr>))))"

text \<open>
  \<^verbatim>\<open>transport.onclose\<close> of a transport whose session id is \<open>sid\<close>: \<^verbatim>\<open>delete\<close> removes an entry
  of the table's own and leaves inherited names alone.
\<close>

definition transportOnClose ::
  "string option \<Rightarrow> MCPServerImpl \<Rightarrow> mcp_error option \<times> MCPServerImpl" where
  "transportOnClose sid s =
     (case present sid of
        Some key \<Rightarrow>
          (case mcpHttpTransportSessions s of
             None \<Rightarrow> (Some TypeError, s)
           | Some sessions \<Rightarrow>
               (None, s\<lparr>mcpHttpTransportSessions :=
                          Some (filter (\<lambda>kv. fst kv \<noteq> key) sessions)\<rparr>))
      | None \<Rightarrow> (None, s))"

text \<open>Everything a client of the object, or of its HTTP endpoint, can make it do.\<close>

datatype call =
    ServeHttp HttpServeOptions
  | ServeStdio
  | Destroy
  | InstallHooks
  | EnsureExpressApp
  | EnsureMcpHttpTransportSessions
  | EnsureMcpStdioTransport
  | EnsureDestroyed
  | HandlePost "string option" bool bool "string option"
  | HandleSessionRequest "string option"
  | TransportOnClose "string option"

fun do_call :: "call \<Rightarrow> MCPServerImpl \<Rightarrow> mcp_error option \<times> MCPServerImpl" where
  "do_call (ServeHttp options) s = serveHttp options s"
| "do_call ServeStdio s = serveStdio s"
| "do_call Destroy s = destroy s"
| "do_call InstallHooks s = (None, installHooks s)"
| "do_call EnsureExpressApp s = (None, ensureExpressApp s)"
| "do_call EnsureMcpHttpTransportSessions s = (None, ensureMcpHttpTransportSessions s)"
| "do_call EnsureMcpStdioTransport s = (None, ensureMcpStdioTransport s)"
| "do_call EnsureDestroyed s = ensureDestroyed s"
| "do_call (HandlePost sessionId isInit connected newSid) s =
     handlePost sessionId isInit connected newSid s"
| "do_call (HandleSessionRequest sessionId) s = handleSessionRequest sessionId s"
| "do_call (TransportOnClose sid) s = transportOnClose sid s"

text \<open>
  A sequence of calls on one object. A caller may catch what a call throws and go on,
  so the sequence continues from the state the call left.
\<close>

fun do_calls :: "call list \<Rightarrow> MCPServerImpl \<Rightarrow> MCPServerImpl" where
  "do_calls [] s = s"
| "do_calls (c # cs) s = do_calls cs (snd (do_call c s))"

text \<open>The invariant of the object: the flag is set, and nothing has closed the SDK server or the stdio transport.\<close>

definition never_closed :: "MCPServerImpl \<Rightarrow> bool" where
  "never_closed s \<longleftrightarrow> isDestroyed s \<and> McpClose \<notin> set (effects s) \<and> StdioClose \<notin> set (effects s)"

section \<open>JavaScript values read from JSON\<close>

text \<open>
  What \<^verbatim>\<open>JSON.parse\<close> and \<^verbatim>\<open>response.json()\<close> hand back, with \<^verbatim>\<open>undefined\<close> for a
  property that is not there. The representation of numbers is left open: the code only
  ever asks whether one is zero. An object lists its properties, each key once.
\<close>

datatype 'n js =
    JUndefined
  | JNull
  | JBool bool
  | JNum 'n
  | JStr string
  | JArr "'n js list"
  | JObj "(string \<times> 'n js) list"

datatype js_error =
    JsTypeError          \<comment> \<open>a property of \<^verbatim>\<open>undefined\<close> or \<^verbatim>\<open>null\<close>, or a call of a non-function\<close>
  | JsSyntaxError        \<comment> \<open>\<^verbatim>\<open>JSON.parse\<close> on text that is not JSON\<close>
  | Rejected string      \<comment> \<open>what an external collaborator threw or rejected with\<close>

text \<open>
  \<^verbatim>\<open>v.key\<close> for a key that is no built-in property (\<open>results\<close>, \<open>isValid\<close>, \<open>term\<close>,
  \<open>reason\<close>, \<open>success\<close>, \<open>id\<close>): a TypeError on \<^verbatim>\<open>undefined\<close> and \<^verbatim>\<open>null\<close>, the stored value
  on an object that has the key, \<^verbatim>\<open>undefined\<close> otherwise.
\<close>

fun js_get :: "'n js \<Rightarrow> string \<Rightarrow> js_error + 'n js" where
  "js_get JUndefined key = Inl JsTypeError"
| "js_get JNull key = Inl JsTypeError"
| "js_get (JObj kvs) key = Inr (case map_of kvs key of Some v \<Rightarrow> v | None \<Rightarrow> JUndefined)"
| "js_get v key = Inr JUndefined"

text \<open>A value in a condition.\<close>

fun truthy :: "'n::zero js \<Rightarrow> bool" where
  "truthy JUndefined = False"
| "truthy JNull = False"
| "truthy (JBool b) = b"
| "truthy (JNum n) = (n \<noteq> 0)"
| "truthy (JStr s) = (s \<noteq> [])"
| "truthy (JArr _) = True"
| "truthy (JObj _) = True"

text \<open>
  Whether the conversion of a value to a string, as a template literal does it, returns
  rather than throws. A primitive always converts. An object from JSON converts through
  the inherited \<^verbatim>\<open>toString\<close> unless it has a property of its own under that name: such a
  property is data, not a function, and the inherited \<^verbatim>\<open>valueOf\<close> gives back the object, so
  the conversion throws a TypeError. An array converts by joining the conversions of
  its elements.
\<close>

fun stringable :: "'n js \<Rightarrow> bool" where
  "stringable (JArr xs) = list_all stringable xs"
| "stringable (JObj kvs) = (map_of kvs ''toString'' = None)"
| "stringable _ = True"

section \<open>Concept validation by the AI (ai-validator.ts)\<close>

text \<open>\<^verbatim>\<open>xs.join(sep)\<close> on an array of strings.\<close>

fun join :: "string \<Rightarrow> string list \<Rightarrow> string" where
  "join sep [] = []"
| "join sep [x] = x"
| "join sep (x # y # ys) = x @ sep @ join sep (y # ys)"

text \<open>
  The prompt is a fixed template with the code context and the joined terms put in;
  the template's own text is not modelled. The message sent has role \<open>user\<close>.
\<close>

datatype prompt = Prompt string string

datatype message = UserMessage prompt

text \<open>
  The collaborators of \<open>validateConcepts\<close>, none of them in this file of the repository:
  \<open>reply\<close> (the AI call), \<^verbatim>\<open>MarkdownCodeBlock.from\<close> (here giving the \<open>code\<close> of each block
  it finds) and \<^verbatim>\<open>JSON.parse\<close>. Each may throw.
\<close>

record 'n validator_env =
  reply :: "message list \<Rightarrow> js_error + string"
  codeBlocksFrom :: "string \<Rightarrow> js_error + string list"
  jsonParse :: "string \<Rightarrow> js_error + 'n js"

record 'n ConceptValidationResults =
  validConcepts :: "'n js list"
  invalidConcepts :: "('n js \<times> 'n js) list"

datatype validator_event = AiCall "message list" | ConsoleError js_error

text \<open>The body of the \<^verbatim>\<open>forEach\<close> over \<open>response.results\<close>, pushing to the two arrays.\<close>

fun classify ::
  "'n::zero js list \<Rightarrow> 'n js list \<Rightarrow> ('n js \<times> 'n js) list
     \<Rightarrow> js_error + 'n ConceptValidationResults" where
  "classify [] valid invalid = Inr \<lparr>validConcepts = valid, invalidConcepts = invalid\<rparr>"
| "classify (result # rest) valid invalid =
     (case js_get result ''isValid'' of
        Inl e \<Rightarrow> Inl e
      | Inr isValid \<Rightarrow>
          if truthy isValid then
            (case js_get result ''term'' of
               Inl e \<Rightarrow> Inl e
             | Inr term \<Rightarrow> classify rest (valid @ [term]) invalid)
          else
            (case js_get result ''term'' of
               Inl e \<Rightarrow> Inl e
             | Inr term \<Rightarrow>
                 (case js_get result ''reason'' of
                    Inl e \<Rightarrow> Inl e
                  | Inr reason \<Rightarrow> classify rest valid (invalid @ [(term, reason)]))))"

text \<open>
  The \<^verbatim>\<open>try\<close> block. \<^verbatim>\<open>MarkdownCodeBlock.from(text)[0].code\<close> is a TypeError when no block was
  found; \<^verbatim>\<open>response.results.forEach\<close> is a TypeError unless \<open>results\<close> is an array.
\<close>

definition validateConcepts_try ::
  "'n::zero validator_env \<Rightarrow> string list \<Rightarrow> string
     \<Rightarrow> (js_error + 'n ConceptValidationResults) \<times> validator_event list" where
  "validateConcepts_try env extractedTerms codeContext =
     (let messages = [UserMessage (Prompt codeContext (join '', '' extractedTerms))];
          log = [AiCall messages]
      in case reply env messages of
           Inl e \<Rightarrow> (Inl e, log)
         | Inr text \<Rightarrow>
             (case codeBlocksFrom env text of
                Inl e \<Rightarrow> (Inl e, log)
              | Inr [] \<Rightarrow> (Inl JsTypeError, log)
              | Inr (code # _) \<Rightarrow>
                  (case jsonParse env code of
                     Inl e \<Rightarrow> (Inl e, log)
                   | Inr response \<Rightarrow>
                       (case js_get response ''results'' of
                          Inl e \<Rightarrow> (Inl e, log)
                        | Inr (JArr results) \<Rightarrow> (classify results [] [], log)
                        | Inr _ \<Rightarrow> (Inl JsTypeError, log)))))"

text \<open>
  \<open>validateConcepts\<close>: \<open>Inr\<close> is the value the promise resolves with, \<open>Inl\<close> what it rejects
  with; the second component is what was done on the way.
\<close>

definition validateConcepts ::
  "'n::zero validator_env \<Rightarrow> string list \<Rightarrow> string
     \<Rightarrow> (js_error + 'n ConceptValidationResults) \<times> validator_event list" where
  "validateConcepts env extractedTerms codeContext =
     (if length extractedTerms = 0
      then (Inr \<lparr>validConcepts = [], invalidConcepts = []\<rparr>, [])
      else
        (case validateConcepts_try env extractedTerms codeContext of
           (Inr r, log) \<Rightarrow> (Inr r, log)
         | (Inl error, log) \<Rightarrow>
             (Inr \<lparr>validConcepts = map JStr extractedTerms, invalidConcepts = []\<rparr>,
              log @ [ConsoleError error])))"

section \<open>The analyzer application (InterfaceAnalyzerApp)\<close>

text \<open>
  The fields of \<open>AppConfig\<close> that the application reads. \<open>outputJsonFile\<close> may be absent.
\<close>

record AppConfig =
  dirPath :: string
  outputJsonFile :: "string option"
  upload :: bool
  serverUrl :: string

text \<open>
  \<^verbatim>\<open>JSON.stringify(x, null, 2)\<close> of the analysis result (\<open>'r\<close>) or of the flattened list
  that \<open>convertToList\<close> makes of it (\<open>'l\<close>), kept symbolic.
\<close>

datatype ('r, 'l) content = ResultJson 'r | ListJson 'l

text \<open>
  What a run does to the outside, in order. A path is the string handed to
  \<^verbatim>\<open>fs.writeFileSync\<close>. The console lines are named by what they say.
\<close>

datatype ('r, 'l, 'n) event =
    WriteFile string "('r, 'l) content" \<comment> \<open>\<^verbatim>\<open>fs.writeFileSync(path, content)\<close> that returned\<close>
  | Post string "('r, 'l) content"      \<comment> \<open>\<^verbatim>\<open>fetch(url, {method: 'POST', body})\<close>\<close>
  | LogScanning string                  \<comment> \<open>scanning directory \<open>dirPath\<close>\<close>
  | LogUploading string                 \<comment> \<open>uploading the result to \<open>serverUrl\<close>\<close>
  | LogUploadSucceeded                  \<comment> \<open>the result was uploaded\<close>
  | LogId "'n js"                       \<comment> \<open>\<^verbatim>\<open>ID: ${data.id}\<close>\<close>
  | ErrUploadFailed "'n js"             \<comment> \<open>\<^verbatim>\<open>console.error\<close>: upload failed, with \<open>data\<close>\<close>
  | ErrUploadError js_error             \<comment> \<open>\<^verbatim>\<open>console.error\<close>: an error during upload, with it\<close>
  | LogSaved string                     \<comment> \<open>the result was saved to the path\<close>

text \<open>
  The response of the endpoint: its HTTP status and what \<^verbatim>\<open>response.json()\<close> gives.
\<close>

record 'n response =
  status :: nat
  json :: "js_error + 'n js"

text \<open>
  What the collaborators do during one run: the working directory, \<^verbatim>\<open>path.join\<close> of
  Node's library (with whatever normalisation it does), and for every call the
  application makes either the value returned or the error thrown (\<open>None\<close>: a call
  without a value returned normally). The write outcomes cover \<^verbatim>\<open>JSON.stringify\<close> too.
  The console and \<open>updateConfig\<close> are taken to return normally.
\<close>

record ('r, 'l, 'n) world =
  cwd :: string
  pathJoin :: "string \<Rightarrow> string \<Rightarrow> string"
  initialize_outcome :: "js_error option"
  analyzeDirectory_outcome :: "js_error + 'r"
  writeOutput_outcome :: "js_error option"
  convertToList_outcome :: "js_error + 'l"
  writeDebug_outcome :: "js_error option"
  fetch_outcome :: "js_error + 'n response"
  generateLearningMaterials_outcome :: "js_error option"

text \<open>
  The \<^verbatim>\<open>try\<close> block of \<open>uploadResult\<close>. The line \<^verbatim>\<open>ID: ${data.id}\<close> converts the identifier
  to a string, which throws for a value that is not \<open>stringable\<close>, after the success line
  has been printed.
\<close>

definition uploadResult_try ::
  "('r, 'l, 'n::zero) world \<Rightarrow> 'r \<Rightarrow> AppConfig \<Rightarrow> (js_error + unit) \<times> ('r, 'l, 'n) event list" where
  "uploadResult_try w result config =
     (case convertToList_outcome w of
        Inl e \<Rightarrow> (Inl e, [])
      | Inr textResult \<Rightarrow>
          let debugFilePath = pathJoin w (cwd w) ''debug_analysis_result.json''
          in (case writeDebug_outcome w of
                Some e \<Rightarrow> (Inl e, [])
              | None \<Rightarrow>
                  let t1 = [WriteFile debugFilePath (ListJson textResult),
                            Post (serverUrl config) (ListJson textResult)]
                  in (case fetch_outcome w of
                        Inl e \<Rightarrow> (Inl e, t1)
                      | Inr response \<Rightarrow>
                          (case json response of
                             Inl e \<Rightarrow> (Inl e, t1)
                           | Inr data \<Rightarrow>
                               (case js_get data ''success'' of
                                  Inl e \<Rightarrow> (Inl e, t1)
                                | Inr success \<Rightarrow>
                                    if truthy success then
                                      (case js_get data ''id'' of
                                         Inl e \<Rightarrow> (Inl e, t1 @ [LogUploadSucceeded])
                                       | Inr i \<Rightarrow>
                                           if stringable i
                                           then (Inr (), t1 @ [LogUploadSucceeded, LogId i])
                                           else (Inl JsTypeError, t1 @ [LogUploadSucceeded]))
                                    else (Inr (), t1 @ [ErrUploadFailed data]))))))"

text \<open>\<open>uploadResult\<close>: the \<^verbatim>\<open>catch\<close> logs whatever the block threw.\<close>

definition uploadResult ::
  "('r, 'l, 'n::zero) world \<Rightarrow> 'r \<Rightarrow> AppConfig \<Rightarrow> (js_error + unit) \<times> ('r, 'l, 'n) event list" where
  "uploadResult w result config =
     (case uploadResult_try w result config of
        (Inr u, t) \<Rightarrow> (Inr u, t)
      | (Inl error, t) \<Rightarrow> (Inr (), t @ [ErrUploadError error]))"

text \<open>
  \<open>run\<close>. The output path is
  \<^verbatim>\<open>path.join(process.cwd(), config.outputJsonFile || 'analysis_result.json')\<close>: an absent
  and an empty file name both give the default.
\<close>

definition run ::
  "('r, 'l, 'n::zero) world \<Rightarrow> AppConfig \<Rightarrow> (js_error + unit) \<times> ('r, 'l, 'n) event list" where
  "run w config =
     (case initialize_outcome w of
        Some e \<Rightarrow> (Inl e, [])
      | None \<Rightarrow>
          let t1 = [LogScanning (dirPath config)]
          in (case analyzeDirectory_outcome w of
                Inl e \<Rightarrow> (Inl e, t1)
              | Inr result \<Rightarrow>
                  let outputFilePath =
                        pathJoin w (cwd w)
                          (case outputJsonFile config of
                             None \<Rightarrow> ''analysis_result.json''
                           | Some name \<Rightarrow> if name = [] then ''analysis_result.json'' else name)
                  in (case writeOutput_outcome w of
                        Some e \<Rightarrow> (Inl e, t1)
                      | None \<Rightarrow>
                          let t2 = t1 @ [WriteFile outputFilePath (ResultJson result)];
                              (uploaded, t3) =
                                (if upload config
                                 then (case uploadResult w result config of
                                         (u, t) \<Rightarrow> (u, t2 @ [LogUploading (serverUrl config)] @ t))
                                 else (Inr (), t2))
                          in (case uploaded of
                                Inl e \<Rightarrow> (Inl e, t3)
                              | Inr _ \<Rightarrow>
                                  let t4 = t3 @ [LogSaved outputFilePath]
                                  in (case generateLearningMaterials_outcome w of
                                        Some e \<Rightarrow> (Inl e, t4)
                                      | None \<Rightarrow> (Inr (), t4))))))"

text \<open>The console lines that report a success of the upload, and those that report a failure.\<close>

fun reports_success :: "('r, 'l, 'n) event \<Rightarrow> bool" where
  "reports_success LogUploadSucceeded = True"
| "reports_success (LogId _) = True"
| "reports_success _ = False"

fun reports_failure :: "('r, 'l, 'n) event \<Rightarrow> bool" where
  "reports_failure (ErrUploadFailed _) = True"
| "reports_failure (ErrUploadError _) = True"
| "reports_failure _ = False"

text \<open>
  Whether the endpoint's reply is read as a success: the upload got as far as the reply,
  its body parsed as JSON, and the \<open>success\<close> property of the parsed body is truthy.
\<close>

definition body_success :: "('r, 'l, 'n::zero) world \<Rightarrow> bool" where
  "body_success w =
     (case convertToList_outcome w of
        Inl _ \<Rightarrow> False
      | Inr _ \<Rightarrow>
          (case writeDebug_outcome w of
             Some _ \<Rightarrow> False
           | None \<Rightarrow>
               (case fetch_outcome w of
                  Inl _ \<Rightarrow> False
                | Inr response \<Rightarrow>
                    (case json response of
                       Inl _ \<Rightarrow> False
                     | Inr data \<Rightarrow>
                         (case js_get data ''success'' of
                            Inl _ \<Rightarrow> False
                          | Inr success \<Rightarrow> truthy success)))))"

text \<open>The same world with another HTTP status on the response, if there is a response.\<close>

definition with_status :: "nat \<Rightarrow> ('r, 'l, 'n) world \<Rightarrow> ('r, 'l, 'n) world" where
  "with_status n w =
     w\<lparr>fetch_outcome := (case fetch_outcome w of Inl e \<Rightarrow> Inl e | Inr response \<Rightarrow> Inr (response\<lparr>status := n\<rparr>))\<rparr>"

text \<open>
  The content written last under a path string. Two writes under the same string go to
  the same file.
\<close>

fun writes_to :: "string \<Rightarrow> ('r, 'l, 'n) event \<Rightarrow> ('r, 'l) content option" where
  "writes_to p (WriteFile q c) = (if q = p then Some c else None)"
| "writes_to p _ = None"

definition file_after :: "('r, 'l, 'n) event list \<Rightarrow> string \<Rightarrow> ('r, 'l) content option" where
  "file_after es p =
     (case List.map_filter (writes_to p) es of
        [] \<Rightarrow> None
      | c # cs \<Rightarrow> Some (last (c # cs)))"

text \<open>
  For sample runs: what \<^verbatim>\<open>path.join\<close> gives for a directory without a trailing slash and
  a plain file name.
\<close>

definition sample_join :: "string \<Rightarrow> string \<Rightarrow> string" where
  "sample_join dir name = dir @ ''/'' @ name"

section \<open>The pattern query cache\<close>

text \<open>
  The profile builds each of its queries with \<^verbatim>\<open>new MemoizedQuery(patternText)\<close>: the
  constructor is given the pattern text and no grammar. The class itself
  (\<^verbatim>\<open>base/LanguageProfile\<close>) is not among the sources.
\<close>

text \<open>
  Modelled from the spec: the compiled query object of the Pattern Query Cache, which
  the missing class \<open>MemoizedQuery\<close> hands out. An object has an identity (its address,
  here the number of the compilation that made it) and is the compilation of one
  pattern text against one grammar handle.
\<close>

record 'g CompiledQuery =
  address :: nat
  compiledFrom :: string
  compiledFor :: 'g

text \<open>
  Modelled from the spec: the state of the Pattern Query Cache of the missing class
  \<open>MemoizedQuery\<close>: the entries, one per (pattern text, grammar handle) pair, in the
  order of their insertion, and the number of compilations performed so far.
\<close>

record 'g QueryCache =
  entries :: "((string \<times> 'g) \<times> 'g CompiledQuery) list"
  compilations :: nat

text \<open>
  Modelled from the spec: the error of the missing cache's \<open>get\<close>, carrying the pattern
  text and the grammar identity.
\<close>

datatype 'g cache_error = QueryCompilationError string 'g

text \<open>
  Modelled from the spec: the cache of the missing class \<open>MemoizedQuery\<close> as it is
  created at startup, with no entry and nothing compiled.
\<close>

definition emptyCache :: "'g QueryCache" where
  "emptyCache = \<lparr>entries = [], compilations = 0\<rparr>"

text \<open>
  Modelled from the spec: \<open>get(patternText, grammarHandle)\<close> of the missing class
  \<open>MemoizedQuery\<close>. On a hit it returns the object compiled before, unchanged, and
  changes nothing. On a miss it compiles the pattern against the grammar: a pattern
  that is malformed for the grammar (\<open>wellFormed\<close> is the grammar engine's verdict) fails
  with \<open>QueryCompilationError\<close>; otherwise the new object is inserted, the only mutation.
  Nothing is ever evicted.
\<close>

definition get ::
  "('g \<Rightarrow> string \<Rightarrow> bool) \<Rightarrow> string \<Rightarrow> 'g \<Rightarrow> 'g QueryCache
     \<Rightarrow> ('g cache_error + 'g CompiledQuery) \<times> 'g QueryCache" where
  "get wellFormed patternText grammarHandle cache =
     (case map_of (entries cache) (patternText, grammarHandle) of
        Some compiled \<Rightarrow> (Inr compiled, cache)
      | None \<Rightarrow>
          if wellFormed grammarHandle patternText then
            let compiled = \<lparr>address = compilations cache,
                            compiledFrom = patternText,
                            compiledFor = grammarHandle\<rparr>
            in (Inr compiled,
                cache\<lparr>entries := entries cache @ [((patternText, grammarHandle), compiled)],
                      compilations := Suc (compilations cache)\<rparr>)
          else (Inl (QueryCompilationError patternText grammarHandle), cache))"

text \<open>
  Modelled from the spec: the missing class \<open>MemoizedQuery\<close> as the profile uses it. An
  instance holds the pattern text it was constructed with; constructing it does not
  touch the cache, and the evaluation request \<open>query\<close> asks the cache for the compiled
  form of that text against the grammar given then.
\<close>

record MemoizedQuery =
  queryText :: string

text \<open>
  Modelled from the spec: the constructor of the missing class \<open>MemoizedQuery\<close>, called
  by the profile with the pattern text alone. Compilation is lazy, so it only stores
  the text and returns the cache as it got it.
\<close>

definition new_MemoizedQuery :: "string \<Rightarrow> 'g QueryCache \<Rightarrow> MemoizedQuery \<times> 'g QueryCache" where
  "new_MemoizedQuery patternText cache = (\<lparr>queryText = patternText\<rparr>, cache)"

text \<open>
  Modelled from the spec: the evaluation request of the missing class \<open>MemoizedQuery\<close>,
  which is the cache's \<open>get\<close> for the stored pattern text and the grammar handle given.
\<close>

definition query ::
  "('g \<Rightarrow> string \<Rightarrow> bool) \<Rightarrow> MemoizedQuery \<Rightarrow> 'g \<Rightarrow> 'g QueryCache
     \<Rightarrow> ('g cache_error + 'g CompiledQuery) \<times> 'g QueryCache" where
  "query wellFormed q grammarHandle cache = get wellFormed (queryText q) grammarHandle cache"

text \<open>
  Modelled from the spec: the life of the missing cache, a sequence of \<open>get\<close> requests
  served one after the other, whatever each of them answers.
\<close>

fun serve :: "('g \<Rightarrow> string \<Rightarrow> bool) \<Rightarrow> (string \<times> 'g) list \<Rightarrow> 'g QueryCache \<Rightarrow> 'g QueryCache" where
  "serve wellFormed [] cache = cache"
| "serve wellFormed ((p, g) # requests) cache =
     serve wellFormed requests (snd (get wellFormed p g cache))"

text \<open>
  Modelled from the spec: the invariant of the missing cache, at most one compiled
  object per pair: one entry per pair, every object filed under the pair it was compiled
  for, no two entries sharing an object, and as many entries as compilations.
\<close>

definition cache_ok :: "'g QueryCache \<Rightarrow> bool" where
  "cache_ok cache \<longleftrightarrow>
     distinct (map fst (entries cache))
     \<and> list_all (\<lambda>(k, obj). k = (compiledFrom obj, compiledFor obj)
                            \<and> address obj < compilations cache) (entries cache)
     \<and> distinct (map (address \<circ> snd) (entries cache))
     \<and> length (entries cache) = compilations cache"

section \<open>The code analyzer\<close>

text \<open>
  The application calls \<open>analyzeDirectory\<close> of the class \<open>CodeAnalyzer\<close>
  (\<^verbatim>\<open>analyzers/CodeAnalyzer\<close>), which is not among the sources; neither are the
  structurers, the profile registry and the result types.
\<close>

text \<open>
  Modelled from the spec: the per-file error kinds of the missing \<open>CodeAnalyzer\<close>: no
  profile for the extension, the grammar rejected the source (with the offending offset
  if available), and a pattern of the profile that does not compile for its grammar.
\<close>

datatype file_error =
    UnsupportedLanguage
  | ParseError "nat option"
  | QueryCompilationFailed string

text \<open>
  Modelled from the spec: a candidate file of the traversal that the missing
  \<open>CodeAnalyzer\<close> runs, with its path and its bytes.
\<close>

record SourceFile =
  filePath :: string
  sourceText :: string

text \<open>
  Modelled from the spec: the \<open>FileStructureResult\<close> of the missing \<open>CodeAnalyzer\<close>: file
  path, language (none when no profile matched), the top-level entities in order and
  the per-file errors.
\<close>

record 'e FileStructureResult =
  path :: string
  language :: "string option"
  entities :: "'e list"
  errors :: "file_error list"

text \<open>
  Modelled from the spec: the \<open>CodeAnalysisResult\<close> of the missing \<open>CodeAnalyzer\<close>: root
  directory, the per-file results in order, and the aggregate counters (files scanned,
  files failed, count per language, elapsed time).
\<close>

record 'e CodeAnalysisResult =
  rootDirectory :: string
  fileResults :: "'e FileStructureResult list"
  filesScanned :: nat
  filesFailed :: nat
  perLanguage :: "string \<Rightarrow> nat"
  elapsed :: nat

text \<open>
  Modelled from the spec: the external collaborators of the missing \<open>CodeAnalyzer\<close>, at
  their boundary. \<open>traverse\<close> lists the candidate files under a root, respecting the
  ignore rules of the configuration, or fails when the root cannot be accessed;
  \<open>resolve\<close> is the profile registry, by the extension of a path; \<open>parse\<close> is the grammar
  engine, answering a tree or a parse error with its offset; \<open>structure\<close> is the
  structurer, answering entities and errors.
\<close>

record ('c, 'p, 't, 'e) analyzer_env =
  traverse :: "'c \<Rightarrow> string \<Rightarrow> string + SourceFile list"
  resolve :: "string \<Rightarrow> 'p option"
  languageOf :: "'p \<Rightarrow> string"
  parse :: "'p \<Rightarrow> string \<Rightarrow> nat option + 't"
  "structure" :: "'p \<Rightarrow> 't \<Rightarrow> 'e list \<times> file_error list"

text \<open>
  Modelled from the spec: what the missing \<open>CodeAnalyzer\<close> does with one file. The file
  goes from pending to parsed to structured to done, or to failed at any step; a failure
  is recorded in this file's result and there is no retry.
\<close>

definition analyzeFile :: "('c, 'p, 't, 'e) analyzer_env \<Rightarrow> SourceFile \<Rightarrow> 'e FileStructureResult" where
  "analyzeFile env f =
     (case resolve env (filePath f) of
        None \<Rightarrow>
          \<lparr>path = filePath f, language = None, entities = [], errors = [UnsupportedLanguage]\<rparr>
      | Some profile \<Rightarrow>
          (case parse env profile (sourceText f) of
             Inl offset \<Rightarrow>
               \<lparr>path = filePath f, language = Some (languageOf env profile),
                entities = [], errors = [ParseError offset]\<rparr>
           | Inr tree \<Rightarrow>
               (case structure env profile tree of
                  (es, errs) \<Rightarrow>
                    \<lparr>path = filePath f, language = Some (languageOf env profile),
                     entities = es, errors = errs\<rparr>)))"

text \<open>
  Modelled from the spec: the two ordering policies the spec allows the missing
  \<open>CodeAnalyzer\<close> to choose between for its list of results: sorted by file path once all
  files are done, or the order in which the files happened to finish.
\<close>

datatype ordering_policy = SortByPath | InsertionOrder

text \<open>
  Modelled from the spec: how the missing \<open>CodeAnalyzer\<close> orders the file results it
  has collected, under either policy.
\<close>

definition arrange :: "ordering_policy \<Rightarrow> 'e FileStructureResult list \<Rightarrow> 'e FileStructureResult list" where
  "arrange policy results =
     (case policy of
        SortByPath \<Rightarrow> sort_key path results
      | InsertionOrder \<Rightarrow> results)"

text \<open>
  Modelled from the spec: \<open>analyzeDirectory\<close> of the missing \<open>CodeAnalyzer\<close>. Only a root
  that cannot be traversed aborts the scan. Otherwise every candidate file is analysed
  on its own; \<open>finished\<close> is the order in which the files happen to be done (they may be
  processed in parallel) and \<open>clock\<close> the time the scan happened to take. The counters
  are summed over the results.
\<close>

definition analyzeDirectory ::
  "('c, 'p, 't, 'e) analyzer_env \<Rightarrow> ordering_policy \<Rightarrow> (SourceFile list \<Rightarrow> SourceFile list)
     \<Rightarrow> nat \<Rightarrow> 'c \<Rightarrow> string \<Rightarrow> string + 'e CodeAnalysisResult" where
  "analyzeDirectory env policy finished clock config root =
     (case traverse env config root of
        Inl fatal \<Rightarrow> Inl fatal
      | Inr listing \<Rightarrow>
          let results = map (analyzeFile env) (finished listing)
          in Inr \<lparr>rootDirectory = root,
                  fileResults = arrange policy results,
                  filesScanned = length results,
                  filesFailed = length (filter (\<lambda>r. errors r \<noteq> []) results),
                  perLanguage = (\<lambda>l. length (filter (\<lambda>r. language r = Some l) results)),
                  elapsed = clock\<rparr>)"

text \<open>
  Modelled from the spec: equality of two results of the missing \<open>CodeAnalyzer\<close> under
  the ordering policy, ignoring the timing counter: the same list of file results when
  they are sorted by path, the same file results in some order otherwise.
\<close>

definition equal_under ::
  "ordering_policy \<Rightarrow> 'e CodeAnalysisResult \<Rightarrow> 'e CodeAnalysisResult \<Rightarrow> bool" where
  "equal_under policy a b \<longleftrightarrow>
     rootDirectory a = rootDirectory b
     \<and> (case policy of
          SortByPath \<Rightarrow> fileResults a = fileResults b
        | InsertionOrder \<Rightarrow> mset (fileResults a) = mset (fileResults b))
     \<and> filesScanned a = filesScanned b
     \<and> filesFailed a = filesFailed b
     \<and> perLanguage a = perLanguage b"

text \<open>
  Modelled from the spec: the same comparison on what two scans of the missing
  \<open>CodeAnalyzer\<close> return, a fatal error or a result: both abort with the same error, or
  both return results that are equal under the policy.
\<close>

definition same_outcome ::
  "ordering_policy \<Rightarrow> string + 'e CodeAnalysisResult \<Rightarrow> string + 'e CodeAnalysisResult \<Rightarrow> bool" where
  "same_outcome policy x y =
     (case (x, y) of
        (Inl e, Inl e') \<Rightarrow> e = e'
      | (Inr a, Inr b) \<Rightarrow> equal_under policy a b
      | _ \<Rightarrow> False)"

text \<open>
  A sample scan for the analyzer, after the scenarios of the spec: a directory \<open>/repo\<close>
  with a Rust file that parses, a Rust file with an unbalanced brace that the grammar
  rejects at offset 14, and a file of no registered language; any other root cannot be
  accessed.
\<close>

definition sample_point :: SourceFile where
  "sample_point = \<lparr>filePath = ''src/point.rs'', sourceText = ''struct Point { x: i32, y: i32 }''\<rparr>"

definition sample_broken :: SourceFile where
  "sample_broken = \<lparr>filePath = ''src/broken.rs'', sourceText = ''struct Point {''\<rparr>"

definition sample_readme :: SourceFile where
  "sample_readme = \<lparr>filePath = ''README.md'', sourceText = ''notes''\<rparr>"

definition sample_env :: "(unit, string, string, string) analyzer_env" where
  "sample_env =
     \<lparr>traverse = (\<lambda>_ root. if root = ''/repo''
                            then Inr [sample_point, sample_broken, sample_readme]
                            else Inl ''cannot access the root directory''),
      resolve = (\<lambda>p. if endsWith p ''.rs'' then Some ''rust'' else None),
      languageOf = (\<lambda>profile. profile),
      parse = (\<lambda>_ src. if src = ''struct Point {'' then Inl (Some 14) else Inr src),
      structure = (\<lambda>_ tree. ([''Point''], []))\<rparr>"

section \<open>Properties of the Rust profile\<close>

lemma endsWith_suffix: "endsWith s t \<longleftrightarrow> suffix t s"
proof
  assume "endsWith s t"
  then have le: "length t \<le> length s" and eq: "drop (length s - length t) s = t"
    by (auto simp: endsWith_def Let_def nat_diff_distrib' split: if_splits)
  have "s = take (length s - length t) s @ t"
    using eq by (metis append_take_drop_id)
  then show "suffix t s"
    by (metis suffixI)
next
  assume "suffix t s"
  then obtain q where "s = q @ t"
    by (auto simp: suffix_def)
  then show "endsWith s t"
    by (simp add: endsWith_def Let_def)
qed

text \<open>
  C8. For every path, \<open>isTestFile\<close> answers true exactly when the path ends with the
  text \<open>test.rs\<close>: a name that merely ends in it (\<open>latest.rs\<close>, \<open>my_test.rs\<close>) is a test
  file, and a file under a \<open>tests/\<close> directory whose name lacks the suffix is not.
\<close>

theorem isTestFile_iff_suffix:
  "(isTestFile p \<longleftrightarrow> (\<exists>q. p = q @ ''test.rs''))
   \<and> isTestFile ''latest.rs''
   \<and> isTestFile ''my_test.rs''
   \<and> \<not> isTestFile ''tests/parser.rs''"
proof -
  have "isTestFile p \<longleftrightarrow> (\<exists>q. p = q @ ''test.rs'')"
    by (simp add: isTestFile_def endsWith_suffix suffix_def)
  moreover have "isTestFile ''latest.rs''"
    by (simp add: isTestFile_def endsWith_def)
  moreover have "isTestFile ''my_test.rs''"
    by (simp add: isTestFile_def endsWith_def)
  moreover have "\<not> isTestFile ''tests/parser.rs''"
    by (simp add: isTestFile_def endsWith_def)
  ultimately show ?thesis
    by blast
qed

text \<open>
  C4. The symbol-kind taxonomy of the Rust profile is exactly one group, holding the
  thirteen canonical kind names in the order const, function, variable, struct, enum,
  union, typedef, interface, field, enumerator, module, label, lifetime.
\<close>

theorem RustProfile_namespaces:
  "length (namespaces RustProfile) = 1
   \<and> namespaces RustProfile ! 0 =
       [''const'', ''function'', ''variable'', ''struct'', ''enum'', ''union'', ''typedef'',
        ''interface'', ''field'', ''enumerator'', ''module'', ''label'', ''lifetime'']
   \<and> length (namespaces RustProfile ! 0) = 13
   \<and> distinct (namespaces RustProfile ! 0)"
  by (simp add: RustProfile_def)

section \<open>Properties of the MCP server wrapper\<close>

lemma do_call_never_closed: "never_closed s \<Longrightarrow> never_closed (snd (do_call c s))"
  unfolding never_closed_def
  by (cases c)
     (auto simp: serveHttp_def serveStdio_def destroy_def installHooks_def ensureExpressApp_def
        ensureMcpHttpTransportSessions_def ensureMcpStdioTransport_def ensureDestroyed_def
        handlePost_def handleSessionRequest_def transportOnClose_def Let_def
      split: option.splits if_splits indexed.splits)

lemma do_calls_never_closed: "never_closed s \<Longrightarrow> never_closed (do_calls cs s)"
  by (induction cs arbitrary: s) (auto simp: do_call_never_closed)

lemma new_never_closed: "never_closed (new_MCPServerImpl name version)"
  by (simp add: never_closed_def new_MCPServerImpl_def installHooks_def)

lemma serveHttp_no_throw: "isDestroyed s \<Longrightarrow> fst (serveHttp options s) = None"
  by (auto simp: serveHttp_def ensureDestroyed_def ensureExpressApp_def
        ensureMcpHttpTransportSessions_def Let_def split: option.splits)

lemma serveStdio_no_throw: "isDestroyed s \<Longrightarrow> fst (serveStdio s) = None"
  by (auto simp: serveStdio_def ensureDestroyed_def ensureMcpStdioTransport_def Let_def
      split: option.splits)

text \<open>
  C10. After construction \<open>isDestroyed\<close> is true and stays true whatever is called, in any
  number and order; so \<open>ensureDestroyed\<close> never throws, \<open>serveHttp\<close> and \<open>serveStdio\<close>
  never throw, and \<open>destroy\<close> returns at once, leaving the state and the record of
  effects as they were: it closes neither the SDK server, nor the managed HTTP server,
  nor the HTTP sessions, nor the stdio transport. The SDK server and the stdio transport
  are in fact never closed by anything.
\<close>

theorem isDestroyed_always_true:
  "isDestroyed (new_MCPServerImpl name version)
   \<and> isDestroyed (do_calls cs (new_MCPServerImpl name version))
   \<and> ensureDestroyed (do_calls cs (new_MCPServerImpl name version))
       = (None, do_calls cs (new_MCPServerImpl name version))
   \<and> fst (serveHttp options (do_calls cs (new_MCPServerImpl name version))) = None
   \<and> fst (serveStdio (do_calls cs (new_MCPServerImpl name version))) = None
   \<and> destroy (do_calls cs (new_MCPServerImpl name version))
       = (None, do_calls cs (new_MCPServerImpl name version))
   \<and> McpClose \<notin> set (effects (do_calls cs (new_MCPServerImpl name version)))
   \<and> StdioClose \<notin> set (effects (do_calls cs (new_MCPServerImpl name version)))"
proof -
  let ?s = "do_calls cs (new_MCPServerImpl name version)"
  have "never_closed ?s"
    by (rule do_calls_never_closed) (rule new_never_closed)
  then have inv: "isDestroyed ?s"
    and open1: "McpClose \<notin> set (effects ?s)" and open2: "StdioClose \<notin> set (effects ?s)"
    by (simp_all add: never_closed_def)
  have init: "isDestroyed (new_MCPServerImpl name version)"
    using new_never_closed by (simp add: never_closed_def)
  have "ensureDestroyed ?s = (None, ?s)"
    using inv by (simp add: ensureDestroyed_def)
  moreover have "destroy ?s = (None, ?s)"
    using inv by (simp add: destroy_def)
  moreover have "fst (serveHttp options ?s) = None"
    using inv by (rule serveHttp_no_throw)
  moreover have "fst (serveStdio ?s) = None"
    using inv by (rule serveStdio_no_throw)
  ultimately show ?thesis
    using inv init open1 open2 by blast
qed

section \<open>Properties of the concept validation\<close>

lemma validateConcepts_resolves:
  "\<exists>r log. validateConcepts env extractedTerms codeContext = (Inr r, log)"
proof (cases "validateConcepts_try env extractedTerms codeContext")
  case (Pair outcome log)
  then show ?thesis
    by (cases outcome) (simp_all add: validateConcepts_def)
qed

lemma validateConcepts_catch:
  assumes "fst (validateConcepts_try env extractedTerms codeContext) = Inl e"
  shows "fst (validateConcepts env extractedTerms codeContext)
           = Inr \<lparr>validConcepts = map JStr extractedTerms, invalidConcepts = []\<rparr>"
proof (cases "validateConcepts_try env extractedTerms codeContext")
  case (Pair outcome log)
  with assms have "outcome = Inl e"
    by simp
  with Pair show ?thesis
    by (simp add: validateConcepts_def)
qed

text \<open>
  C9. \<open>validateConcepts\<close> resolves for every input and never rejects. With no extracted
  terms it resolves with two empty lists and the AI is not invoked. If the AI call
  throws, or the extraction of the code blocks throws or finds no block, or the parsing
  of the first block throws, it resolves with all extracted terms as valid concepts and
  no invalid ones.
\<close>

theorem validateConcepts_never_rejects:
  "(\<exists>r log. validateConcepts env extractedTerms codeContext = (Inr r, log))
   \<and> validateConcepts env [] codeContext
       = (Inr \<lparr>validConcepts = [], invalidConcepts = []\<rparr>, [])
   \<and> (reply env [UserMessage (Prompt codeContext (join '', '' extractedTerms))] = Inl e1
        \<longrightarrow> fst (validateConcepts env extractedTerms codeContext)
              = Inr \<lparr>validConcepts = map JStr extractedTerms, invalidConcepts = []\<rparr>)
   \<and> (reply env [UserMessage (Prompt codeContext (join '', '' extractedTerms))] = Inr text
        \<and> codeBlocksFrom env text = Inl e2
        \<longrightarrow> fst (validateConcepts env extractedTerms codeContext)
              = Inr \<lparr>validConcepts = map JStr extractedTerms, invalidConcepts = []\<rparr>)
   \<and> (reply env [UserMessage (Prompt codeContext (join '', '' extractedTerms))] = Inr text
        \<and> codeBlocksFrom env text = Inr []
        \<longrightarrow> fst (validateConcepts env extractedTerms codeContext)
              = Inr \<lparr>validConcepts = map JStr extractedTerms, invalidConcepts = []\<rparr>)
   \<and> (reply env [UserMessage (Prompt codeContext (join '', '' extractedTerms))] = Inr text
        \<and> codeBlocksFrom env text = Inr (code # rest)
        \<and> jsonParse env code = Inl e3
        \<longrightarrow> fst (validateConcepts env extractedTerms codeContext)
              = Inr \<lparr>validConcepts = map JStr extractedTerms, invalidConcepts = []\<rparr>)"
proof -
  let ?m = "[UserMessage (Prompt codeContext (join '', '' extractedTerms))]"
  let ?all = "Inr \<lparr>validConcepts = map JStr extractedTerms, invalidConcepts = []\<rparr>
                :: js_error + 'a ConceptValidationResults"
  let ?v = "fst (validateConcepts env extractedTerms codeContext)"
  have empty: "validateConcepts env [] codeContext
       = (Inr \<lparr>validConcepts = [], invalidConcepts = []\<rparr>, [])"
    by (simp add: validateConcepts_def)
  have ai: "?v = ?all" if "reply env ?m = Inl e1"
  proof (rule validateConcepts_catch)
    show "fst (validateConcepts_try env extractedTerms codeContext) = Inl e1"
      using that by (simp add: validateConcepts_try_def)
  qed
  have blocks: "?v = ?all" if "reply env ?m = Inr text" "codeBlocksFrom env text = Inl e2"
  proof (rule validateConcepts_catch)
    show "fst (validateConcepts_try env extractedTerms codeContext) = Inl e2"
      using that by (simp add: validateConcepts_try_def)
  qed
  have noblock: "?v = ?all" if "reply env ?m = Inr text" "codeBlocksFrom env text = Inr []"
  proof (rule validateConcepts_catch)
    show "fst (validateConcepts_try env extractedTerms codeContext) = Inl JsTypeError"
      using that by (simp add: validateConcepts_try_def)
  qed
  have parse: "?v = ?all"
    if "reply env ?m = Inr text" "codeBlocksFrom env text = Inr (code # rest)"
       "jsonParse env code = Inl e3"
  proof (rule validateConcepts_catch)
    show "fst (validateConcepts_try env extractedTerms codeContext) = Inl e3"
      using that by (simp add: validateConcepts_try_def)
  qed
  show ?thesis
    using validateConcepts_resolves [of env extractedTerms codeContext]
      empty ai blocks noblock parse
    by blast
qed

text \<open>
  The theorem at concrete collaborators, for the terms \<open>Order\<close> and \<open>Invoice\<close>: an AI call
  that rejects, an extraction that throws, a reply with no code block, and a block that
  is not JSON.
\<close>

theorem validateConcepts_never_rejects_witness:
  "fst (validateConcepts
          \<lparr>reply = (\<lambda>_. Inl (Rejected ''timeout'')),
           codeBlocksFrom = (\<lambda>_. Inr []),
           jsonParse = (\<lambda>_. Inr (JNull :: int js))\<rparr>
          [''Order'', ''Invoice''] ''class Order {}'')
     = Inr \<lparr>validConcepts = [JStr ''Order'', JStr ''Invoice''], invalidConcepts = []\<rparr>
   \<and> fst (validateConcepts
          \<lparr>reply = (\<lambda>_. Inr ''no json here''),
           codeBlocksFrom = (\<lambda>_. Inl (Rejected ''bad markdown'')),
           jsonParse = (\<lambda>_. Inr (JNull :: int js))\<rparr>
          [''Order'', ''Invoice''] ''class Order {}'')
     = Inr \<lparr>validConcepts = [JStr ''Order'', JStr ''Invoice''], invalidConcepts = []\<rparr>
   \<and> fst (validateConcepts
          \<lparr>reply = (\<lambda>_. Inr ''no json here''),
           codeBlocksFrom = (\<lambda>_. Inr []),
           jsonParse = (\<lambda>_. Inr (JNull :: int js))\<rparr>
          [''Order'', ''Invoice''] ''class Order {}'')
     = Inr \<lparr>validConcepts = [JStr ''Order'', JStr ''Invoice''], invalidConcepts = []\<rparr>
   \<and> fst (validateConcepts
          \<lparr>reply = (\<lambda>_. Inr ''{oops''),
           codeBlocksFrom = (\<lambda>t. Inr [t]),
           jsonParse = (\<lambda>_. Inl JsSyntaxError :: js_error + int js)\<rparr>
          [''Order'', ''Invoice''] ''class Order {}'')
     = Inr \<lparr>validConcepts = [JStr ''Order'', JStr ''Invoice''], invalidConcepts = []\<rparr>"
proof -
  have a: "fst (validateConcepts
          \<lparr>reply = (\<lambda>_. Inl (Rejected ''timeout'')),
           codeBlocksFrom = (\<lambda>_. Inr []),
           jsonParse = (\<lambda>_. Inr (JNull :: int js))\<rparr>
          [''Order'', ''Invoice''] ''class Order {}'')
     = Inr \<lparr>validConcepts = [JStr ''Order'', JStr ''Invoice''], invalidConcepts = []\<rparr>"
    using validateConcepts_never_rejects
      [of "\<lparr>reply = (\<lambda>_. Inl (Rejected ''timeout'')),
           codeBlocksFrom = (\<lambda>_. Inr []),
           jsonParse = (\<lambda>_. Inr (JNull :: int js))\<rparr>"
          "[''Order'', ''Invoice'']" "''class Order {}''" "Rejected ''timeout''"]
    by simp
  have b: "fst (validateConcepts
          \<lparr>reply = (\<lambda>_. Inr ''no json here''),
           codeBlocksFrom = (\<lambda>_. Inl (Rejected ''bad markdown'')),
           jsonParse = (\<lambda>_. Inr (JNull :: int js))\<rparr>
          [''Order'', ''Invoice''] ''class Order {}'')
     = Inr \<lparr>validConcepts = [JStr ''Order'', JStr ''Invoice''], invalidConcepts = []\<rparr>"
    using validateConcepts_never_rejects
      [of "\<lparr>reply = (\<lambda>_. Inr ''no json here''),
           codeBlocksFrom = (\<lambda>_. Inl (Rejected ''bad markdown'')),
           jsonParse = (\<lambda>_. Inr (JNull :: int js))\<rparr>"
          "[''Order'', ''Invoice'']" "''class Order {}''" _ "''no json here''"
          "Rejected ''bad markdown''"]
    by simp
  have c: "fst (validateConcepts
          \<lparr>reply = (\<lambda>_. Inr ''no json here''),
           codeBlocksFrom = (\<lambda>_. Inr []),
           jsonParse = (\<lambda>_. Inr (JNull :: int js))\<rparr>
          [''Order'', ''Invoice''] ''class Order {}'')
     = Inr \<lparr>validConcepts = [JStr ''Order'', JStr ''Invoice''], invalidConcepts = []\<rparr>"
    using validateConcepts_never_rejects
      [of "\<lparr>reply = (\<lambda>_. Inr ''no json here''),
           codeBlocksFrom = (\<lambda>_. Inr []),
           jsonParse = (\<lambda>_. Inr (JNull :: int js))\<rparr>"
          "[''Order'', ''Invoice'']" "''class Order {}''" _ "''no json here''"]
    by simp
  have d: "fst (validateConcepts
          \<lparr>reply = (\<lambda>_. Inr ''{oops''),
           codeBlocksFrom = (\<lambda>t. Inr [t]),
           jsonParse = (\<lambda>_. Inl JsSyntaxError :: js_error + int js)\<rparr>
          [''Order'', ''Invoice''] ''class Order {}'')
     = Inr \<lparr>validConcepts = [JStr ''Order'', JStr ''Invoice''], invalidConcepts = []\<rparr>"
    using validateConcepts_never_rejects
      [of "\<lparr>reply = (\<lambda>_. Inr ''{oops''),
           codeBlocksFrom = (\<lambda>t. Inr [t]),
           jsonParse = (\<lambda>_. Inl JsSyntaxError :: js_error + int js)\<rparr>"
          "[''Order'', ''Invoice'']" "''class Order {}''" _ "''{oops''" _
          "''{oops''" "[]" JsSyntaxError]
    by simp
  show ?thesis
    using a b c d by blast
qed

section \<open>Properties of the pattern query cache\<close>

lemma get_cache_ok: "cache_ok cache \<Longrightarrow> cache_ok (snd (get wellFormed p g cache))"
  by (auto simp: cache_ok_def get_def Let_def list_all_iff map_of_eq_None_iff
      split: option.splits)

lemma serve_cache_ok: "cache_ok cache \<Longrightarrow> cache_ok (serve wellFormed requests cache)"
  by (induction requests arbitrary: cache) (auto simp: get_cache_ok)

lemma emptyCache_ok: "cache_ok emptyCache"
  by (simp add: cache_ok_def emptyCache_def)

lemma get_keeps_entries:
  "map_of (entries cache) k = Some obj \<Longrightarrow> map_of (entries (snd (get wellFormed p g cache))) k = Some obj"
  by (auto simp: get_def Let_def map_add_Some_iff split: option.splits)

lemma serve_keeps_entries:
  "map_of (entries cache) k = Some obj \<Longrightarrow> map_of (entries (serve wellFormed requests cache)) k = Some obj"
  by (induction requests arbitrary: cache) (auto simp: get_keeps_entries)

lemma get_returns_entry:
  "get wellFormed p g cache = (Inr obj, cache') \<Longrightarrow> map_of (entries cache') (p, g) = Some obj"
  by (auto simp: get_def Let_def map_add_Some_iff split: option.splits if_splits)

lemma cache_ok_filed_under:
  "cache_ok cache \<Longrightarrow> map_of (entries cache) k = Some obj \<Longrightarrow> k = (compiledFrom obj, compiledFor obj)"
  by (auto simp: cache_ok_def list_all_iff dest!: map_of_SomeD)

lemma distinct_map_neq:
  "distinct (map f xs) \<Longrightarrow> a \<in> set xs \<Longrightarrow> b \<in> set xs \<Longrightarrow> a \<noteq> b \<Longrightarrow> f a \<noteq> f b"
  by (auto simp: distinct_map inj_on_def)

lemma get_hit:
  "map_of (entries cache) (p, g) = Some obj \<Longrightarrow> get wellFormed p g cache = (Inr obj, cache)"
  by (simp add: get_def)

text \<open>
  C1. Whatever the cache has served before and serves in between, the object it returns
  for a pattern and one grammar handle is never the object it returns for the same
  pattern and another grammar handle: the two differ, in identity too, and each is the
  compilation for the handle it was asked with.
\<close>

theorem get_never_shared_across_grammars:
  assumes "g1 \<noteq> g2"
    and "get wellFormed p g1 (serve wellFormed before emptyCache) = (Inr obj1, cache1)"
    and "get wellFormed p g2 (serve wellFormed between cache1) = (Inr obj2, cache2)"
  shows "obj1 \<noteq> obj2 \<and> address obj1 \<noteq> address obj2
         \<and> compiledFor obj1 = g1 \<and> compiledFor obj2 = g2"
proof -
  let ?c0 = "serve wellFormed before emptyCache"
  have ok1: "cache_ok cache1"
    using get_cache_ok [OF serve_cache_ok [OF emptyCache_ok], of wellFormed p g1 wellFormed before]
      assms(2)
    by simp
  have ok2: "cache_ok cache2"
    using get_cache_ok [OF serve_cache_ok [OF ok1], of wellFormed p g2 wellFormed between]
      assms(3)
    by simp
  have "map_of (entries cache1) (p, g1) = Some obj1"
    using assms(2) by (rule get_returns_entry)
  then have "map_of (entries (serve wellFormed between cache1)) (p, g1) = Some obj1"
    by (rule serve_keeps_entries)
  then have e1: "map_of (entries cache2) (p, g1) = Some obj1"
    using get_keeps_entries [of "serve wellFormed between cache1" "(p, g1)" obj1 wellFormed p g2]
      assms(3)
    by simp
  have e2: "map_of (entries cache2) (p, g2) = Some obj2"
    using assms(3) by (rule get_returns_entry)
  have f1: "compiledFor obj1 = g1"
    using cache_ok_filed_under [OF ok2 e1] by simp
  have f2: "compiledFor obj2 = g2"
    using cache_ok_filed_under [OF ok2 e2] by simp
  have "distinct (map (address \<circ> snd) (entries cache2))"
    using ok2 by (simp add: cache_ok_def)
  moreover have "((p, g1), obj1) \<in> set (entries cache2)" "((p, g2), obj2) \<in> set (entries cache2)"
    using e1 e2 by (auto dest: map_of_SomeD)
  moreover have "((p, g1), obj1) \<noteq> ((p, g2), obj2)"
    using assms(1) by simp
  ultimately have "(address \<circ> snd) ((p, g1), obj1) \<noteq> (address \<circ> snd) ((p, g2), obj2)"
    by (rule distinct_map_neq)
  then have "address obj1 \<noteq> address obj2"
    by simp
  with f1 f2 assms(1) show ?thesis
    by auto
qed

text \<open>
  The theorem at the doc-comment pattern and two grammar handles, on a fresh cache.
\<close>

theorem get_never_shared_across_grammars_witness:
  "(1 :: nat) \<noteq> 2
   \<and> fst (get (\<lambda>_ _. True) ''(block_comment) @docComment'' (1 :: nat) emptyCache)
       = Inr \<lparr>address = 0, compiledFrom = ''(block_comment) @docComment'', compiledFor = 1\<rparr>
   \<and> fst (get (\<lambda>_ _. True) ''(block_comment) @docComment'' (2 :: nat)
            (snd (get (\<lambda>_ _. True) ''(block_comment) @docComment'' (1 :: nat) emptyCache)))
       = Inr \<lparr>address = 1, compiledFrom = ''(block_comment) @docComment'', compiledFor = 2\<rparr>
   \<and> \<lparr>address = 0, compiledFrom = ''(block_comment) @docComment'', compiledFor = (1 :: nat)\<rparr>
       \<noteq> \<lparr>address = 1, compiledFrom = ''(block_comment) @docComment'', compiledFor = 2\<rparr>"
proof -
  let ?p = "''(block_comment) @docComment''"
  let ?o1 = "\<lparr>address = 0, compiledFrom = ?p, compiledFor = (1 :: nat)\<rparr>"
  let ?o2 = "\<lparr>address = 1, compiledFrom = ?p, compiledFor = (2 :: nat)\<rparr>"
  let ?c1 = "\<lparr>entries = [((?p, 1 :: nat), ?o1)], compilations = 1\<rparr>"
  let ?c2 = "\<lparr>entries = [((?p, 1 :: nat), ?o1), ((?p, 2), ?o2)], compilations = 2\<rparr>"
  have a: "get (\<lambda>_ _. True) ?p (1 :: nat) (serve (\<lambda>_ _. True) [] emptyCache) = (Inr ?o1, ?c1)"
    by (simp add: get_def emptyCache_def Let_def)
  have b: "get (\<lambda>_ _. True) ?p (2 :: nat) (serve (\<lambda>_ _. True) [] ?c1) = (Inr ?o2, ?c2)"
    by (simp add: get_def Let_def)
  have n: "(1 :: nat) \<noteq> 2"
    by simp
  have "?o1 \<noteq> ?o2"
    using get_never_shared_across_grammars [OF n a b] by blast
  moreover have "fst (get (\<lambda>_ _. True) ?p (1 :: nat) emptyCache) = Inr ?o1"
    using a by simp
  moreover have "fst (get (\<lambda>_ _. True) ?p (2 :: nat)
                   (snd (get (\<lambda>_ _. True) ?p (1 :: nat) emptyCache))) = Inr ?o2"
    using a b by simp
  ultimately show ?thesis
    using n by blast
qed

text \<open>
  C2. Constructing a \<open>MemoizedQuery\<close> compiles nothing and leaves the cache as it was. A
  request that got an object for a pattern and a grammar handle gets the same object at
  every later request for that pair, and such a request changes nothing: the pattern is
  compiled at the first request only. In every cache that grew from the empty one there
  is one entry per pair and exactly one compilation per entry.
\<close>

theorem query_same_object_compiled_once:
  "snd (new_MemoizedQuery p cache) = cache
   \<and> compilations (snd (new_MemoizedQuery p (emptyCache :: 'g QueryCache))) = 0
   \<and> (query wellFormed (fst (new_MemoizedQuery p cache)) g cache = (Inr obj, cache1)
        \<longrightarrow> query wellFormed (fst (new_MemoizedQuery p cache)) g (serve wellFormed between cache1)
              = (Inr obj, serve wellFormed between cache1))
   \<and> (map_of (entries cache) (p, g) = None \<and> wellFormed g p
        \<longrightarrow> compilations (snd (query wellFormed (fst (new_MemoizedQuery p cache)) g cache))
              = Suc (compilations cache))
   \<and> distinct (map fst (entries (serve wellFormed requests (emptyCache :: 'g QueryCache))))
   \<and> compilations (serve wellFormed requests (emptyCache :: 'g QueryCache))
       = length (entries (serve wellFormed requests (emptyCache :: 'g QueryCache)))"
proof -
  let ?q = "fst (new_MemoizedQuery p cache)"
  have again: "query wellFormed ?q g (serve wellFormed between cache1)
                 = (Inr obj, serve wellFormed between cache1)"
    if "query wellFormed ?q g cache = (Inr obj, cache1)"
  proof -
    from that have "get wellFormed p g cache = (Inr obj, cache1)"
      by (simp add: query_def new_MemoizedQuery_def)
    then have "map_of (entries cache1) (p, g) = Some obj"
      by (rule get_returns_entry)
    then have "map_of (entries (serve wellFormed between cache1)) (p, g) = Some obj"
      by (rule serve_keeps_entries)
    then show ?thesis
      by (simp add: query_def new_MemoizedQuery_def get_hit)
  qed
  have first: "compilations (snd (query wellFormed ?q g cache)) = Suc (compilations cache)"
    if "map_of (entries cache) (p, g) = None" "wellFormed g p"
    using that by (simp add: query_def new_MemoizedQuery_def get_def Let_def)
  have "cache_ok (serve wellFormed requests (emptyCache :: 'g QueryCache))"
    by (rule serve_cache_ok) (rule emptyCache_ok)
  then have "distinct (map fst (entries (serve wellFormed requests (emptyCache :: 'g QueryCache))))"
    and "compilations (serve wellFormed requests (emptyCache :: 'g QueryCache))
           = length (entries (serve wellFormed requests (emptyCache :: 'g QueryCache)))"
    by (simp_all add: cache_ok_def)
  moreover have "snd (new_MemoizedQuery p cache) = cache"
    by (simp add: new_MemoizedQuery_def)
  moreover have "compilations (snd (new_MemoizedQuery p (emptyCache :: 'g QueryCache))) = 0"
    by (simp add: new_MemoizedQuery_def emptyCache_def)
  ultimately show ?thesis
    using again first by blast
qed

text \<open>
  The theorem at the doc-comment pattern and one grammar handle, on a fresh cache: the
  first request compiles, the second returns the same object and compiles nothing.
\<close>

theorem query_same_object_compiled_once_witness:
  "query (\<lambda>_ _. True) \<lparr>queryText = ''(block_comment) @docComment''\<rparr> (7 :: nat) emptyCache
     = (Inr \<lparr>address = 0, compiledFrom = ''(block_comment) @docComment'', compiledFor = 7\<rparr>,
        \<lparr>entries = [((''(block_comment) @docComment'', 7),
                     \<lparr>address = 0, compiledFrom = ''(block_comment) @docComment'',
                      compiledFor = 7\<rparr>)],
         compilations = 1\<rparr>)
   \<and> query (\<lambda>_ _. True) \<lparr>queryText = ''(block_comment) @docComment''\<rparr> (7 :: nat)
       \<lparr>entries = [((''(block_comment) @docComment'', 7),
                    \<lparr>address = 0, compiledFrom = ''(block_comment) @docComment'',
                     compiledFor = 7\<rparr>)],
        compilations = 1\<rparr>
     = (Inr \<lparr>address = 0, compiledFrom = ''(block_comment) @docComment'', compiledFor = 7\<rparr>,
        \<lparr>entries = [((''(block_comment) @docComment'', 7),
                     \<lparr>address = 0, compiledFrom = ''(block_comment) @docComment'',
                      compiledFor = 7\<rparr>)],
         compilations = 1\<rparr>)
   \<and> compilations (snd (query (\<lambda>_ _. True) \<lparr>queryText = ''(block_comment) @docComment''\<rparr>
                          (7 :: nat) emptyCache)) = Suc (compilations (emptyCache :: nat QueryCache))"
proof -
  let ?p = "''(block_comment) @docComment''"
  let ?o = "\<lparr>address = 0, compiledFrom = ?p, compiledFor = (7 :: nat)\<rparr>"
  let ?c1 = "\<lparr>entries = [((?p, 7 :: nat), ?o)], compilations = 1\<rparr>"
  have q: "fst (new_MemoizedQuery ?p (emptyCache :: nat QueryCache)) = \<lparr>queryText = ?p\<rparr>"
    by (simp add: new_MemoizedQuery_def)
  have a: "query (\<lambda>_ _. True) (fst (new_MemoizedQuery ?p (emptyCache :: nat QueryCache))) (7 :: nat) emptyCache
             = (Inr ?o, ?c1)"
    by (simp add: query_def new_MemoizedQuery_def get_def emptyCache_def Let_def)
  have m: "map_of (entries (emptyCache :: nat QueryCache)) (?p, 7) = None \<and> (\<lambda>_ _. True) (7 :: nat) ?p"
    by (simp add: emptyCache_def)
  note T = query_same_object_compiled_once
      [where p = ?p and cache = "emptyCache :: nat QueryCache" and wellFormed = "\<lambda>_ _. True"
         and g = "7 :: nat" and obj = ?o and ?cache1.0 = ?c1 and between = "[]" and requests = "[]"]
  have again: "query (\<lambda>_ _. True) (fst (new_MemoizedQuery ?p (emptyCache :: nat QueryCache))) (7 :: nat)
          (serve (\<lambda>_ _. True) [] ?c1) = (Inr ?o, serve (\<lambda>_ _. True) [] ?c1)"
    by (rule T [THEN conjunct2, THEN conjunct2, THEN conjunct1, THEN mp, OF a])
  have once: "compilations (snd (query (\<lambda>_ _. True) (fst (new_MemoizedQuery ?p (emptyCache :: nat QueryCache)))
                                (7 :: nat) emptyCache))
            = Suc (compilations (emptyCache :: nat QueryCache))"
    by (rule T [THEN conjunct2, THEN conjunct2, THEN conjunct2, THEN conjunct1, THEN mp, OF m])
  show ?thesis
    using a again once unfolding q by simp
qed

section \<open>Properties of the code analyzer\<close>

lemma path_analyzeFile: "path (analyzeFile env f) = filePath f"
  by (simp add: analyzeFile_def split: option.splits sum.splits prod.splits)

lemma sort_key_same_elements:
  fixes f :: "'a \<Rightarrow> 'k::linorder"
  assumes "mset xs = mset ys" and "distinct (map f xs)"
  shows "sort_key f xs = sort_key f ys"
proof -
  have sets: "set xs = set ys"
    using assms(1) by (rule mset_eq_setD)
  have "mset (map f xs) = mset (map f ys)"
    using assms(1) by (metis mset_map)
  then have dys: "distinct (map f ys)"
    using assms(2) by (metis mset_eq_imp_distinct_iff)
  have inj: "inj_on f (set xs \<union> set ys)"
    using assms(2) sets by (simp add: distinct_map)
  have "sorted (map f (sort_key f xs))" "distinct (map f (sort_key f xs))"
    "sorted (map f (sort_key f ys))" "distinct (map f (sort_key f ys))"
    using assms(2) dys by (simp_all add: distinct_map)
  moreover have "set (map f (sort_key f xs)) = set (map f (sort_key f ys))"
    using sets by simp
  ultimately have "map f (sort_key f xs) = map f (sort_key f ys)"
    by (metis sorted_distinct_set_unique)
  moreover have "inj_on f (set (sort_key f xs) \<union> set (sort_key f ys))"
    using inj by simp
  ultimately show ?thesis
    by (metis inj_on_map_eq_map)
qed

lemma length_filter_mset: "mset xs = mset ys \<Longrightarrow> length (filter P xs) = length (filter P ys)"
  by (metis mset_filter size_mset)

lemma analyzeDirectory_aborts_iff:
  "(\<exists>e. analyzeDirectory env policy finished clock config root = Inl e)
     \<longleftrightarrow> (\<exists>e. traverse env config root = Inl e)"
  by (auto simp: analyzeDirectory_def Let_def split: sum.splits)

lemma mset_arrange: "mset (arrange policy rs) = mset rs"
  by (cases policy) (simp_all add: arrange_def)

text \<open>
  C3. A scan aborts exactly when the root directory cannot be traversed. Otherwise it
  returns a result that holds one file result for every candidate file, each of them
  what the analysis of that file alone gives, whatever happened to its siblings. A file
  whose language is not resolved, whose parsing fails or whose structuring reports
  errors has the error recorded in its own file result.
\<close>

theorem analyzeDirectory_isolates_file_failures:
  assumes "\<forall>xs. mset (finished xs) = mset xs"
  shows "((\<exists>e. analyzeDirectory env policy finished clock config root = Inl e)
            \<longleftrightarrow> (\<exists>e. traverse env config root = Inl e))
         \<and> (traverse env config root = Inr listing
              \<longrightarrow> (\<exists>r. analyzeDirectory env policy finished clock config root = Inr r
                    \<and> mset (fileResults r) = mset (map (analyzeFile env) listing)
                    \<and> length (fileResults r) = length listing))
         \<and> (resolve env (filePath f) = None
              \<longrightarrow> errors (analyzeFile env f) = [UnsupportedLanguage]
                  \<and> entities (analyzeFile env f) = [])
         \<and> (resolve env (filePath f) = Some profile
              \<and> parse env profile (sourceText f) = Inl offset
              \<longrightarrow> errors (analyzeFile env f) = [ParseError offset]
                  \<and> entities (analyzeFile env f) = [])
         \<and> (resolve env (filePath f) = Some profile
              \<and> parse env profile (sourceText f) = Inr tree
              \<longrightarrow> errors (analyzeFile env f) = snd (structure env profile tree)
                  \<and> entities (analyzeFile env f) = fst (structure env profile tree))"
proof -
  have all: "\<exists>r. analyzeDirectory env policy finished clock config root = Inr r
               \<and> mset (fileResults r) = mset (map (analyzeFile env) listing)
               \<and> length (fileResults r) = length listing"
    if "traverse env config root = Inr listing"
  proof -
    have m: "mset (map (analyzeFile env) (finished listing)) = mset (map (analyzeFile env) listing)"
      using assms by simp
    then have "mset (arrange policy (map (analyzeFile env) (finished listing)))
                 = mset (map (analyzeFile env) listing)"
      by (simp add: mset_arrange)
    moreover from this
    have "length (arrange policy (map (analyzeFile env) (finished listing))) = length listing"
      by (metis length_map size_mset)
    ultimately show ?thesis
      using that by (simp add: analyzeDirectory_def Let_def)
  qed
  have unsupported: "errors (analyzeFile env f) = [UnsupportedLanguage]
                     \<and> entities (analyzeFile env f) = []"
    if "resolve env (filePath f) = None"
    using that by (simp add: analyzeFile_def)
  have unparsed: "errors (analyzeFile env f) = [ParseError offset]
                  \<and> entities (analyzeFile env f) = []"
    if "resolve env (filePath f) = Some profile" "parse env profile (sourceText f) = Inl offset"
    using that by (simp add: analyzeFile_def)
  have structured: "errors (analyzeFile env f) = snd (structure env profile tree)
                    \<and> entities (analyzeFile env f) = fst (structure env profile tree)"
    if "resolve env (filePath f) = Some profile" "parse env profile (sourceText f) = Inr tree"
    using that by (simp add: analyzeFile_def split: prod.splits)
  show ?thesis
    using analyzeDirectory_aborts_iff [of env policy finished clock config root]
      all unsupported unparsed structured
    by blast
qed

text \<open>
  C7. Two scans of the same directory with the same configuration give results that are
  equal under the ordering policy, whatever the order in which the files were done and
  whatever time each scan took, provided the traversal lists no path twice.
\<close>

theorem analyzeDirectory_deterministic:
  assumes "\<forall>xs. mset (finished1 xs) = mset xs"
    and "\<forall>xs. mset (finished2 xs) = mset xs"
    and "\<forall>listing. traverse env config root = Inr listing \<longrightarrow> distinct (map filePath listing)"
  shows "same_outcome policy
           (analyzeDirectory env policy finished1 clock1 config root)
           (analyzeDirectory env policy finished2 clock2 config root)"
proof (cases "traverse env config root")
  case (Inl fatal)
  then show ?thesis
    by (simp add: same_outcome_def analyzeDirectory_def)
next
  case (Inr listing)
  let ?r1 = "map (analyzeFile env) (finished1 listing)"
  let ?r2 = "map (analyzeFile env) (finished2 listing)"
  have m: "mset ?r1 = mset ?r2"
    using assms(1,2) by simp
  have paths: "map path ?r1 = map filePath (finished1 listing)"
    by (simp add: path_analyzeFile)
  have "distinct (map filePath (finished1 listing))"
  proof -
    have "distinct (map filePath listing)"
      using assms(3) Inr by simp
    moreover have "mset (map filePath (finished1 listing)) = mset (map filePath listing)"
      using assms(1) by simp
    ultimately show ?thesis
      by (metis mset_eq_imp_distinct_iff)
  qed
  then have d: "distinct (map path ?r1)"
    by (simp only: paths)
  have files: "case policy of
                 SortByPath \<Rightarrow> arrange policy ?r1 = arrange policy ?r2
               | InsertionOrder \<Rightarrow> mset (arrange policy ?r1) = mset (arrange policy ?r2)"
  proof (cases policy)
    case SortByPath
    then show ?thesis
      using sort_key_same_elements [OF m d] by (simp add: arrange_def)
  next
    case InsertionOrder
    then show ?thesis
      using m by (simp add: arrange_def)
  qed
  have scanned: "length ?r1 = length ?r2"
    using m by (metis size_mset)
  have failed: "length (filter (\<lambda>r. errors r \<noteq> []) ?r1) = length (filter (\<lambda>r. errors r \<noteq> []) ?r2)"
    using m by (rule length_filter_mset)
  have langs: "(\<lambda>l. length (filter (\<lambda>r. language r = Some l) ?r1))
                 = (\<lambda>l. length (filter (\<lambda>r. language r = Some l) ?r2))"
    using length_filter_mset [OF m] by auto
  show ?thesis
    using Inr files scanned failed langs
    by (cases policy) (simp_all add: same_outcome_def equal_under_def analyzeDirectory_def Let_def)
qed

lemma sample_traverse: "traverse sample_env () ''/repo'' = Inr [sample_point, sample_broken, sample_readme]"
  by (simp add: sample_env_def)

lemma sample_resolve:
  "resolve sample_env (filePath sample_point) = Some ''rust''"
  "resolve sample_env (filePath sample_broken) = Some ''rust''"
  "resolve sample_env (filePath sample_readme) = None"
  by (simp_all add: sample_env_def sample_point_def sample_broken_def sample_readme_def endsWith_def)

lemma sample_parse:
  "parse sample_env ''rust'' (sourceText sample_point) = Inr ''struct Point { x: i32, y: i32 }''"
  "parse sample_env ''rust'' (sourceText sample_broken) = Inl (Some 14)"
  by (simp_all add: sample_env_def sample_point_def sample_broken_def)

text \<open>
  The theorem at the sample scan, with the files finishing in reverse order: the scan of
  \<open>/repo\<close> returns three file results, the broken file's parse error and the unsupported
  file's error stay in their own file results, the good file has its entity, and only
  the scan of a root that cannot be accessed aborts.
\<close>

theorem analyzeDirectory_isolates_file_failures_witness:
  "(\<exists>r. analyzeDirectory sample_env InsertionOrder rev 3 () ''/repo'' = Inr r
        \<and> mset (fileResults r)
            = mset (map (analyzeFile sample_env) [sample_point, sample_broken, sample_readme])
        \<and> length (fileResults r) = 3)
   \<and> errors (analyzeFile sample_env sample_readme) = [UnsupportedLanguage]
   \<and> entities (analyzeFile sample_env sample_readme) = []
   \<and> errors (analyzeFile sample_env sample_broken) = [ParseError (Some 14)]
   \<and> entities (analyzeFile sample_env sample_broken) = []
   \<and> errors (analyzeFile sample_env sample_point) = []
   \<and> entities (analyzeFile sample_env sample_point) = [''Point'']
   \<and> (\<exists>e. analyzeDirectory sample_env InsertionOrder rev 3 () ''/missing'' = Inl e)"
proof -
  have fair: "\<forall>xs :: SourceFile list. mset (rev xs) = mset xs"
    by simp
  note T = analyzeDirectory_isolates_file_failures [OF fair, where env = sample_env
      and policy = InsertionOrder and clock = 3 and config = "()"]
  have scan: "\<exists>r. analyzeDirectory sample_env InsertionOrder rev 3 () ''/repo'' = Inr r
        \<and> mset (fileResults r)
            = mset (map (analyzeFile sample_env) [sample_point, sample_broken, sample_readme])
        \<and> length (fileResults r) = length [sample_point, sample_broken, sample_readme]"
    by (rule T [where root = "''/repo''" and listing = "[sample_point, sample_broken, sample_readme]",
          THEN conjunct2, THEN conjunct1, THEN mp, OF sample_traverse])
  have readme: "errors (analyzeFile sample_env sample_readme) = [UnsupportedLanguage]
        \<and> entities (analyzeFile sample_env sample_readme) = []"
    by (rule T [where f = sample_readme,
          THEN conjunct2, THEN conjunct2, THEN conjunct1, THEN mp, OF sample_resolve(3)])
  have broken: "errors (analyzeFile sample_env sample_broken) = [ParseError (Some 14)]
        \<and> entities (analyzeFile sample_env sample_broken) = []"
    by (rule T [where f = sample_broken and profile = "''rust''" and offset = "Some 14",
          THEN conjunct2, THEN conjunct2, THEN conjunct2, THEN conjunct1, THEN mp,
          OF conjI [OF sample_resolve(2) sample_parse(2)]])
  have "errors (analyzeFile sample_env sample_point)
          = snd (structure sample_env ''rust'' ''struct Point { x: i32, y: i32 }'')
        \<and> entities (analyzeFile sample_env sample_point)
          = fst (structure sample_env ''rust'' ''struct Point { x: i32, y: i32 }'')"
    by (rule T [where f = sample_point and profile = "''rust''"
            and tree = "''struct Point { x: i32, y: i32 }''",
          THEN conjunct2, THEN conjunct2, THEN conjunct2, THEN conjunct2, THEN mp,
          OF conjI [OF sample_resolve(1) sample_parse(1)]])
  then have point: "errors (analyzeFile sample_env sample_point) = []
        \<and> entities (analyzeFile sample_env sample_point) = [''Point'']"
    by (simp add: sample_env_def)
  have "\<exists>e. traverse sample_env () ''/missing'' = Inl e"
    by (simp add: sample_env_def)
  then have missing: "\<exists>e. analyzeDirectory sample_env InsertionOrder rev 3 () ''/missing'' = Inl e"
    by (rule T [where root = "''/missing''", THEN conjunct1, THEN iffD2])
  have three: "length [sample_point, sample_broken, sample_readme] = 3"
    by simp
  show ?thesis
    using scan readme broken point missing unfolding three by simp
qed

text \<open>
  The theorem at the sample scan, sorted by path: a scan whose files finish in listing
  order and take 3 units of time, and one whose files finish in reverse order and take
  8, give equal results.
\<close>

theorem analyzeDirectory_deterministic_witness:
  "same_outcome SortByPath
     (analyzeDirectory sample_env SortByPath (\<lambda>xs. xs) 3 () ''/repo'')
     (analyzeDirectory sample_env SortByPath rev 8 () ''/repo'')"
proof -
  have fair1: "\<forall>xs :: SourceFile list. mset ((\<lambda>xs. xs) xs) = mset xs"
    by simp
  have fair2: "\<forall>xs :: SourceFile list. mset (rev xs) = mset xs"
    by simp
  have paths: "\<forall>listing. traverse sample_env () ''/repo'' = Inr listing
                 \<longrightarrow> distinct (map filePath listing)"
    by (auto simp: sample_env_def sample_point_def sample_broken_def sample_readme_def)
  show ?thesis
    by (rule analyzeDirectory_deterministic [OF fair1 fair2 paths])
qed

section \<open>Sample runs\<close>

text \<open>
  \<open>validateConcepts\<close> on a reply whose code block parses to two results, one valid and
  one not: one AI call, and the terms sorted into the two lists with their reasons.
\<close>

lemma validateConcepts_sample:
  "validateConcepts
     \<lparr>reply = (\<lambda>_. Inr ''json block''),
      codeBlocksFrom = (\<lambda>_. Inr [''{results}'']),
      jsonParse = (\<lambda>_. Inr (JObj [(''results'', JArr
         [JObj [(''term'', JStr ''Order''), (''isValid'', JBool True), (''reason'', JStr ''entity'')],
          JObj [(''term'', JStr ''loop''), (''isValid'', JBool False), (''reason'', JStr ''generic'')]])]
         :: int js))\<rparr>
     [''Order'', ''loop''] ''class Order {}''
   = (Inr \<lparr>validConcepts = [JStr ''Order''],
            invalidConcepts = [(JStr ''loop'', JStr ''generic'')]\<rparr>,
      [AiCall [UserMessage (Prompt ''class Order {}'' ''Order, loop'')]])"
  by (simp add: validateConcepts_def validateConcepts_try_def)

text \<open>
  A reply that parses but whose \<open>results\<close> is not an array makes \<^verbatim>\<open>forEach\<close> throw inside the
  \<^verbatim>\<open>try\<close> block; the error is logged and all terms come back as valid.
\<close>

lemma validateConcepts_sample_no_results:
  "validateConcepts
     \<lparr>reply = (\<lambda>_. Inr ''json block''),
      codeBlocksFrom = (\<lambda>_. Inr [''{}'']),
      jsonParse = (\<lambda>_. Inr (JObj [] :: int js))\<rparr>
     [''Order'', ''loop''] ''class Order {}''
   = (Inr \<lparr>validConcepts = [JStr ''Order'', JStr ''loop''], invalidConcepts = []\<rparr>,
      [AiCall [UserMessage (Prompt ''class Order {}'' ''Order, loop'')], ConsoleError JsTypeError])"
  by (simp add: validateConcepts_def validateConcepts_try_def)

text \<open>
  Serving HTTP twice on a new server object: the second call is not refused, registers
  the three routes again and replaces the first listener.
\<close>

lemma serveHttp_twice_sample:
  "do_calls [ServeHttp \<lparr>port = 3000, hostname = None\<rparr>,
             ServeHttp \<lparr>port = 3001, hostname = Some ''localhost''\<rparr>,
             Destroy]
     (new_MCPServerImpl ''ctx'' ''1.0'')
   = \<lparr>impl_name = ''ctx'', impl_version = ''1.0'',
      mcpStdioTransport = None,
      mcpHttpTransportSessions = Some [],
      managedHttpServer = Some (Listening 3001 (Some ''localhost'')),
      expressApp = Some \<lparr>jsonMiddleware = True,
                          routes = [(POST, ''/mcp''), (GET, ''/mcp''), (DELETE, ''/mcp''),
                                    (POST, ''/mcp''), (GET, ''/mcp''), (DELETE, ''/mcp'')]\<rparr>,
      isDestroyed = True,
      nextTransport = 0,
      effects = [McpResource ''mcp'', McpTool ''add'', McpPrompt ''review-code'',
                 HttpListen (Listening 3000 None),
                 HttpClose (Listening 3000 None),
                 HttpListen (Listening 3001 (Some ''localhost''))]\<rparr>"
  by (simp add: new_MCPServerImpl_def installHooks_def serveHttp_def ensureDestroyed_def
      ensureExpressApp_def ensureMcpHttpTransportSessions_def destroy_def Let_def)

text \<open>
  A request for the session \<open>constructor\<close> finds the inherited member of the session
  table and throws; the flag is untouched.
\<close>

lemma handleSessionRequest_inherited_sample:
  "fst (handleSessionRequest (Some ''constructor'')
          (do_calls [ServeHttp \<lparr>port = 3000, hostname = None\<rparr>] (new_MCPServerImpl ''ctx'' ''1.0'')))
     = Some TypeError
   \<and> isDestroyed (snd (handleSessionRequest (Some ''constructor'')
          (do_calls [ServeHttp \<lparr>port = 3000, hostname = None\<rparr>] (new_MCPServerImpl ''ctx'' ''1.0''))))"
  by (simp add: new_MCPServerImpl_def installHooks_def serveHttp_def ensureDestroyed_def
      ensureExpressApp_def ensureMcpHttpTransportSessions_def handleSessionRequest_def
      sessionAt_def inheritedKeys_def Let_def)

section \<open>Properties of the analyzer application\<close>

lemma uploadResult_resolves: "fst (uploadResult w result config) = Inr ()"
proof (cases "uploadResult_try w result config")
  case (Pair outcome t)
  then show ?thesis
    by (cases outcome) (simp_all add: uploadResult_def)
qed

lemma js_get_throws_any_key: "js_get v key = Inr x \<Longrightarrow> js_get v key' = Inl e \<Longrightarrow> False"
  by (cases v) simp_all

lemma uploadResult_success_iff:
  "list_ex reports_success (snd (uploadResult w result config)) \<longleftrightarrow> body_success w"
  by (auto simp: uploadResult_def uploadResult_try_def body_success_def Let_def
      split: sum.splits option.splits)

lemma uploadResult_failure_if:
  "\<not> body_success w \<Longrightarrow> list_ex reports_failure (snd (uploadResult w result config))"
  by (auto simp: uploadResult_def uploadResult_try_def body_success_def Let_def
      split: sum.splits option.splits)

lemma uploadResult_with_status:
  "uploadResult (with_status n w) result config = uploadResult w result config"
  by (auto simp: uploadResult_def uploadResult_try_def with_status_def Let_def
      split: sum.splits option.splits)

lemma uploadResult_reply:
  assumes "convertToList_outcome w = Inr textResult" "writeDebug_outcome w = None"
    "fetch_outcome w = Inr response"
  shows "json response = Inl e
           \<Longrightarrow> snd (uploadResult w result config)
                 = [WriteFile (pathJoin w (cwd w) ''debug_analysis_result.json'') (ListJson textResult),
                    Post (serverUrl config) (ListJson textResult),
                    ErrUploadError e]"
    and "json response = Inr data \<Longrightarrow> js_get data ''success'' = Inr v \<Longrightarrow> \<not> truthy v
           \<Longrightarrow> snd (uploadResult w result config)
                 = [WriteFile (pathJoin w (cwd w) ''debug_analysis_result.json'') (ListJson textResult),
                    Post (serverUrl config) (ListJson textResult),
                    ErrUploadFailed data]"
    and "json response = Inr data \<Longrightarrow> js_get data ''success'' = Inr v \<Longrightarrow> truthy v
           \<Longrightarrow> js_get data ''id'' = Inr i \<Longrightarrow> stringable i
           \<Longrightarrow> snd (uploadResult w result config)
                 = [WriteFile (pathJoin w (cwd w) ''debug_analysis_result.json'') (ListJson textResult),
                    Post (serverUrl config) (ListJson textResult),
                    LogUploadSucceeded,
                    LogId i]"
    and "json response = Inr data \<Longrightarrow> js_get data ''success'' = Inr v \<Longrightarrow> truthy v
           \<Longrightarrow> js_get data ''id'' = Inr i \<Longrightarrow> \<not> stringable i
           \<Longrightarrow> snd (uploadResult w result config)
                 = [WriteFile (pathJoin w (cwd w) ''debug_analysis_result.json'') (ListJson textResult),
                    Post (serverUrl config) (ListJson textResult),
                    LogUploadSucceeded,
                    ErrUploadError JsTypeError]"
  using assms by (simp_all add: uploadResult_def uploadResult_try_def Let_def)

text \<open>
  C6 (as the code has it). \<open>uploadResult\<close> never throws, and the HTTP status of the reply
  plays no part in what it does. The success line is printed exactly when the reply's
  body parses as JSON and its \<open>success\<close> property is truthy; then the identifier printed
  is the body's \<open>id\<close>, and if that cannot be converted to a string an upload error is
  logged after the success line instead. In every other case a failure is logged and
  neither success nor identifier is reported: a body that is not JSON is logged as an
  upload error, a body whose \<open>success\<close> is falsy as a failed upload with the body.
\<close>

theorem uploadResult_reports_by_body:
  "fst (uploadResult w result config) = Inr ()
   \<and> uploadResult (with_status n w) result config = uploadResult w result config
   \<and> (list_ex reports_success (snd (uploadResult w result config)) \<longleftrightarrow> body_success w)
   \<and> (\<not> body_success w \<longrightarrow> list_ex reports_failure (snd (uploadResult w result config)))
   \<and> (convertToList_outcome w = Inr textResult \<and> writeDebug_outcome w = None
        \<and> fetch_outcome w = Inr response \<and> json response = Inl e
        \<longrightarrow> snd (uploadResult w result config)
              = [WriteFile (pathJoin w (cwd w) ''debug_analysis_result.json'') (ListJson textResult),
                 Post (serverUrl config) (ListJson textResult),
                 ErrUploadError e])
   \<and> (convertToList_outcome w = Inr textResult \<and> writeDebug_outcome w = None
        \<and> fetch_outcome w = Inr response \<and> json response = Inr data
        \<and> js_get data ''success'' = Inr v \<and> \<not> truthy v
        \<longrightarrow> snd (uploadResult w result config)
              = [WriteFile (pathJoin w (cwd w) ''debug_analysis_result.json'') (ListJson textResult),
                 Post (serverUrl config) (ListJson textResult),
                 ErrUploadFailed data])
   \<and> (convertToList_outcome w = Inr textResult \<and> writeDebug_outcome w = None
        \<and> fetch_outcome w = Inr response \<and> json response = Inr data
        \<and> js_get data ''success'' = Inr v \<and> truthy v
        \<and> js_get data ''id'' = Inr i \<and> stringable i
        \<longrightarrow> snd (uploadResult w result config)
              = [WriteFile (pathJoin w (cwd w) ''debug_analysis_result.json'') (ListJson textResult),
                 Post (serverUrl config) (ListJson textResult),
                 LogUploadSucceeded,
                 LogId i])
   \<and> (convertToList_outcome w = Inr textResult \<and> writeDebug_outcome w = None
        \<and> fetch_outcome w = Inr response \<and> json response = Inr data
        \<and> js_get data ''success'' = Inr v \<and> truthy v
        \<and> js_get data ''id'' = Inr i \<and> \<not> stringable i
        \<longrightarrow> snd (uploadResult w result config)
              = [WriteFile (pathJoin w (cwd w) ''debug_analysis_result.json'') (ListJson textResult),
                 Post (serverUrl config) (ListJson textResult),
                 LogUploadSucceeded,
                 ErrUploadError JsTypeError])"
  using uploadResult_resolves [of w result config]
    uploadResult_with_status [of n w result config]
    uploadResult_success_iff [of w result config]
    uploadResult_failure_if [of w result config]
    uploadResult_reply [of w textResult response]
  by blast

text \<open>
  The theorem at four replies: status 200 with body \<open>{"success": true, "id": "abc"}\<close>,
  status 200 with an identifier that has a \<open>toString\<close> property of its own, status 500
  with body \<open>{"success": false}\<close>, and status 502 with a body that is not JSON.
\<close>

theorem uploadResult_reports_by_body_witness:
  "snd (uploadResult
      \<lparr>cwd = ''/work'', pathJoin = sample_join, initialize_outcome = None,
       analyzeDirectory_outcome = Inr (), writeOutput_outcome = None,
       convertToList_outcome = Inr (), writeDebug_outcome = None,
       fetch_outcome = Inr \<lparr>status = 200,
          json = Inr (JObj [(''success'', JBool True), (''id'', JStr ''abc'')] :: int js)\<rparr>,
       generateLearningMaterials_outcome = None\<rparr>
      () \<lparr>dirPath = ''src'', outputJsonFile = None, upload = True, serverUrl = ''http://host/api''\<rparr>)
     = [WriteFile ''/work/debug_analysis_result.json'' (ListJson ()),
        Post ''http://host/api'' (ListJson ()),
        LogUploadSucceeded,
        LogId (JStr ''abc'')]
   \<and> snd (uploadResult
      \<lparr>cwd = ''/work'', pathJoin = sample_join, initialize_outcome = None,
       analyzeDirectory_outcome = Inr (), writeOutput_outcome = None,
       convertToList_outcome = Inr (), writeDebug_outcome = None,
       fetch_outcome = Inr \<lparr>status = 200,
          json = Inr (JObj [(''success'', JBool True),
                            (''id'', JObj [(''toString'', JNull)])] :: int js)\<rparr>,
       generateLearningMaterials_outcome = None\<rparr>
      () \<lparr>dirPath = ''src'', outputJsonFile = None, upload = True, serverUrl = ''http://host/api''\<rparr>)
     = [WriteFile ''/work/debug_analysis_result.json'' (ListJson ()),
        Post ''http://host/api'' (ListJson ()),
        LogUploadSucceeded,
        ErrUploadError JsTypeError]
   \<and> snd (uploadResult
      \<lparr>cwd = ''/work'', pathJoin = sample_join, initialize_outcome = None,
       analyzeDirectory_outcome = Inr (), writeOutput_outcome = None,
       convertToList_outcome = Inr (), writeDebug_outcome = None,
       fetch_outcome = Inr \<lparr>status = 500,
          json = Inr (JObj [(''success'', JBool False)] :: int js)\<rparr>,
       generateLearningMaterials_outcome = None\<rparr>
      () \<lparr>dirPath = ''src'', outputJsonFile = None, upload = True, serverUrl = ''http://host/api''\<rparr>)
     = [WriteFile ''/work/debug_analysis_result.json'' (ListJson ()),
        Post ''http://host/api'' (ListJson ()),
        ErrUploadFailed (JObj [(''success'', JBool False)])]
   \<and> snd (uploadResult
      \<lparr>cwd = ''/work'', pathJoin = sample_join, initialize_outcome = None,
       analyzeDirectory_outcome = Inr (), writeOutput_outcome = None,
       convertToList_outcome = Inr (), writeDebug_outcome = None,
       fetch_outcome = Inr \<lparr>status = 502, json = Inl JsSyntaxError :: js_error + int js\<rparr>,
       generateLearningMaterials_outcome = None\<rparr>
      () \<lparr>dirPath = ''src'', outputJsonFile = None, upload = True, serverUrl = ''http://host/api''\<rparr>)
     = [WriteFile ''/work/debug_analysis_result.json'' (ListJson ()),
        Post ''http://host/api'' (ListJson ()),
        ErrUploadError JsSyntaxError]"
proof -
  let ?c = "\<lparr>dirPath = ''src'', outputJsonFile = None, upload = True, serverUrl = ''http://host/api''\<rparr>"
  let ?d1 = "JObj [(''success'', JBool True), (''id'', JStr ''abc'')] :: int js"
  let ?d2 = "JObj [(''success'', JBool True), (''id'', JObj [(''toString'', JNull)])] :: int js"
  let ?d3 = "JObj [(''success'', JBool False)] :: int js"
  let ?r1 = "\<lparr>status = 200, json = Inr ?d1\<rparr>"
  let ?r2 = "\<lparr>status = 200, json = Inr ?d2\<rparr>"
  let ?r3 = "\<lparr>status = 500, json = Inr ?d3\<rparr>"
  let ?r4 = "\<lparr>status = 502, json = Inl JsSyntaxError :: js_error + int js\<rparr>"
  let ?w = "\<lambda>r. \<lparr>cwd = ''/work'', pathJoin = sample_join, initialize_outcome = None,
       analyzeDirectory_outcome = Inr (), writeOutput_outcome = None,
       convertToList_outcome = Inr (), writeDebug_outcome = None,
       fetch_outcome = Inr r, generateLearningMaterials_outcome = None\<rparr>
       :: (unit, unit, int) world"
  have dbg: "pathJoin (?w r) (cwd (?w r)) ''debug_analysis_result.json''
               = ''/work/debug_analysis_result.json''" for r
    by (simp add: sample_join_def)
  have h1: "convertToList_outcome (?w ?r1) = Inr () \<and> writeDebug_outcome (?w ?r1) = None
        \<and> fetch_outcome (?w ?r1) = Inr ?r1 \<and> json ?r1 = Inr ?d1
        \<and> js_get ?d1 ''success'' = Inr (JBool True) \<and> truthy (JBool True :: int js)
        \<and> js_get ?d1 ''id'' = Inr (JStr ''abc'') \<and> stringable (JStr ''abc'' :: int js)"
    by simp
  have a: "snd (uploadResult (?w ?r1) () ?c)
     = [WriteFile (pathJoin (?w ?r1) (cwd (?w ?r1)) ''debug_analysis_result.json'') (ListJson ()),
        Post (serverUrl ?c) (ListJson ()), LogUploadSucceeded, LogId (JStr ''abc'')]"
    by (rule uploadResult_reports_by_body
          [where w = "?w ?r1" and config = ?c and result = "()" and textResult = "()"
             and response = ?r1 and data = ?d1 and v = "JBool True" and i = "JStr ''abc''"
             and n = 0 and e = JsTypeError,
           THEN conjunct2, THEN conjunct2, THEN conjunct2, THEN conjunct2, THEN conjunct2,
           THEN conjunct2, THEN conjunct1, THEN mp, OF h1])
  have h2: "convertToList_outcome (?w ?r2) = Inr () \<and> writeDebug_outcome (?w ?r2) = None
        \<and> fetch_outcome (?w ?r2) = Inr ?r2 \<and> json ?r2 = Inr ?d2
        \<and> js_get ?d2 ''success'' = Inr (JBool True) \<and> truthy (JBool True :: int js)
        \<and> js_get ?d2 ''id'' = Inr (JObj [(''toString'', JNull)])
        \<and> \<not> stringable (JObj [(''toString'', JNull)] :: int js)"
    by simp
  have b: "snd (uploadResult (?w ?r2) () ?c)
     = [WriteFile (pathJoin (?w ?r2) (cwd (?w ?r2)) ''debug_analysis_result.json'') (ListJson ()),
        Post (serverUrl ?c) (ListJson ()), LogUploadSucceeded, ErrUploadError JsTypeError]"
    by (rule uploadResult_reports_by_body
          [where w = "?w ?r2" and config = ?c and result = "()" and textResult = "()"
             and response = ?r2 and data = ?d2 and v = "JBool True"
             and i = "JObj [(''toString'', JNull)]" and n = 0 and e = JsTypeError,
           THEN conjunct2, THEN conjunct2, THEN conjunct2, THEN conjunct2, THEN conjunct2,
           THEN conjunct2, THEN conjunct2, THEN mp, OF h2])
  have h3: "convertToList_outcome (?w ?r3) = Inr () \<and> writeDebug_outcome (?w ?r3) = None
        \<and> fetch_outcome (?w ?r3) = Inr ?r3 \<and> json ?r3 = Inr ?d3
        \<and> js_get ?d3 ''success'' = Inr (JBool False) \<and> \<not> truthy (JBool False :: int js)"
    by simp
  have c: "snd (uploadResult (?w ?r3) () ?c)
     = [WriteFile (pathJoin (?w ?r3) (cwd (?w ?r3)) ''debug_analysis_result.json'') (ListJson ()),
        Post (serverUrl ?c) (ListJson ()), ErrUploadFailed ?d3]"
    by (rule uploadResult_reports_by_body
          [where w = "?w ?r3" and config = ?c and result = "()" and textResult = "()"
             and response = ?r3 and data = ?d3 and v = "JBool False" and i = JNull
             and n = 0 and e = JsTypeError,
           THEN conjunct2, THEN conjunct2, THEN conjunct2, THEN conjunct2, THEN conjunct2,
           THEN conjunct1, THEN mp, OF h3])
  have h4: "convertToList_outcome (?w ?r4) = Inr () \<and> writeDebug_outcome (?w ?r4) = None
        \<and> fetch_outcome (?w ?r4) = Inr ?r4 \<and> json ?r4 = Inl JsSyntaxError"
    by simp
  have d: "snd (uploadResult (?w ?r4) () ?c)
     = [WriteFile (pathJoin (?w ?r4) (cwd (?w ?r4)) ''debug_analysis_result.json'') (ListJson ()),
        Post (serverUrl ?c) (ListJson ()), ErrUploadError JsSyntaxError]"
    by (rule uploadResult_reports_by_body
          [where w = "?w ?r4" and config = ?c and result = "()" and textResult = "()"
             and response = ?r4 and data = JNull and v = JNull and i = JNull
             and n = 0 and e = JsSyntaxError,
           THEN conjunct2, THEN conjunct2, THEN conjunct2, THEN conjunct2,
           THEN conjunct1, THEN mp, OF h4])
  show ?thesis
    using a b c d unfolding dbg by simp
qed

text \<open>
  Against C6 as stated. A reply with status 500 whose body is
  \<open>{"success": true, "id": "abc"}\<close> is reported as a success, with its identifier, and no
  failure is logged: the status is not looked at. A reply whose body is
  \<open>{"success": "yes", "id": "abc"}\<close> is reported as a success too, though its \<open>success\<close> is
  not \<open>true\<close>: the test is for a truthy value.
\<close>

theorem uploadResult_ignores_status_counterexample:
  "\<not> (200 \<le> status \<lparr>status = 500, json = Inr (JObj [(''success'', JBool True), (''id'', JStr ''abc'')] :: int js)\<rparr>
       \<and> status \<lparr>status = 500, json = Inr (JObj [(''success'', JBool True), (''id'', JStr ''abc'')] :: int js)\<rparr> < 300)
   \<and> uploadResult
      \<lparr>cwd = ''/work'', pathJoin = sample_join, initialize_outcome = None,
       analyzeDirectory_outcome = Inr (), writeOutput_outcome = None,
       convertToList_outcome = Inr (), writeDebug_outcome = None,
       fetch_outcome = Inr \<lparr>status = 500,
          json = Inr (JObj [(''success'', JBool True), (''id'', JStr ''abc'')] :: int js)\<rparr>,
       generateLearningMaterials_outcome = None\<rparr>
      () \<lparr>dirPath = ''src'', outputJsonFile = None, upload = True, serverUrl = ''http://host/api''\<rparr>
     = (Inr (),
        [WriteFile ''/work/debug_analysis_result.json'' (ListJson ()),
         Post ''http://host/api'' (ListJson ()),
         LogUploadSucceeded,
         LogId (JStr ''abc'')])
   \<and> JStr ''yes'' \<noteq> (JBool True :: int js)
   \<and> uploadResult
      \<lparr>cwd = ''/work'', pathJoin = sample_join, initialize_outcome = None,
       analyzeDirectory_outcome = Inr (), writeOutput_outcome = None,
       convertToList_outcome = Inr (), writeDebug_outcome = None,
       fetch_outcome = Inr \<lparr>status = 200,
          json = Inr (JObj [(''success'', JStr ''yes''), (''id'', JStr ''abc'')] :: int js)\<rparr>,
       generateLearningMaterials_outcome = None\<rparr>
      () \<lparr>dirPath = ''src'', outputJsonFile = None, upload = True, serverUrl = ''http://host/api''\<rparr>
     = (Inr (),
        [WriteFile ''/work/debug_analysis_result.json'' (ListJson ()),
         Post ''http://host/api'' (ListJson ()),
         LogUploadSucceeded,
         LogId (JStr ''abc'')])"
  by (simp add: uploadResult_def uploadResult_try_def sample_join_def)






text \<open>
  When the configured output file is the debug dump's own name, the dump that
  \<open>uploadResult\<close> writes goes to the same path and replaces the analysis result that \<open>run\<close>
  wrote there.
\<close>

lemma run_output_replaced_by_debug_dump:
  assumes "upload config" "outputJsonFile config = Some ''debug_analysis_result.json''"
    and "initialize_outcome w = None" "analyzeDirectory_outcome w = Inr result"
    and "writeOutput_outcome w = None" "convertToList_outcome w = Inr textResult"
    and "writeDebug_outcome w = None"
  shows "file_after (snd (run w config)) (pathJoin w (cwd w) ''debug_analysis_result.json'')
           = Some (ListJson textResult)"
  using assms
  by (auto simp: run_def uploadResult_def uploadResult_try_def file_after_def
      List.map_filter_simps Let_def split: sum.splits option.splits)

text \<open>A whole run with upload enabled whose endpoint answers \<open>{"success": true, "id": 42}\<close>.\<close>

lemma run_sample:
  "run \<lparr>cwd = ''/work'', pathJoin = sample_join, initialize_outcome = None,
        analyzeDirectory_outcome = Inr (1 :: nat),
        writeOutput_outcome = None, convertToList_outcome = Inr (2 :: nat),
        writeDebug_outcome = None,
        fetch_outcome = Inr \<lparr>status = 200,
                             json = Inr (JObj [(''success'', JBool True), (''id'', JNum (42 :: int))])\<rparr>,
        generateLearningMaterials_outcome = None\<rparr>
       \<lparr>dirPath = ''src'', outputJsonFile = None, upload = True, serverUrl = ''http://host/api''\<rparr>
   = (Inr (),
      [LogScanning ''src'',
       WriteFile ''/work/analysis_result.json'' (ResultJson 1),
       LogUploading ''http://host/api'',
       WriteFile ''/work/debug_analysis_result.json'' (ListJson 2),
       Post ''http://host/api'' (ListJson 2),
       LogUploadSucceeded,
       LogId (JNum 42),
       LogSaved ''/work/analysis_result.json''])"
  by (simp add: run_def uploadResult_def uploadResult_try_def sample_join_def Let_def)

end
